theory Spec2Isabelle
  imports Main
begin

section \<open>The host's Date object\<close>

text \<open>
  The warranty keeper computes with the Date object of its JavaScript host. The
  repository holds no code for it, so this section writes out the part of ECMA-262
  (section "Date Objects") that \<^verbatim>\<open>src/utils/warrantyUtils.ts\<close> calls: time values in
  milliseconds since the epoch, the day and year arithmetic, \<^verbatim>\<open>MakeDay\<close>, \<^verbatim>\<open>MakeDate\<close>,
  \<^verbatim>\<open>TimeClip\<close>, and the setters \<^verbatim>\<open>setDate\<close>, \<^verbatim>\<open>setMonth\<close>, \<^verbatim>\<open>setFullYear\<close> and
  \<^verbatim>\<open>setHours\<close>. The names are those of the standard.

  A Date holds either a time value or NaN (an "Invalid Date").
\<close>

datatype jsdate = InvalidDate | Date int

definition msPerDay :: int where
  "msPerDay = 86400000"

definition Day :: "int \<Rightarrow> int" where
  "Day t = t div msPerDay"

definition TimeWithinDay :: "int \<Rightarrow> int" where
  "TimeWithinDay t = t mod msPerDay"

definition DaysInYear :: "int \<Rightarrow> int" where
  "DaysInYear y =
     (if y mod 4 \<noteq> 0 then 365
      else if y mod 100 \<noteq> 0 then 366
      else if y mod 400 \<noteq> 0 then 365
      else 366)"

definition DayFromYear :: "int \<Rightarrow> int" where
  "DayFromYear y =
     365 * (y - 1970) + (y - 1969) div 4 - (y - 1901) div 100 + (y - 1601) div 400"

text \<open>
  The standard defines the year of a time value as the largest \<open>y\<close> whose first day is
  not after it. The search below starts from a year that is never too late and walks
  forward; \<open>YearFromDay_unique\<close> shows that it finds exactly that year.
\<close>

definition yearEstimate :: "int \<Rightarrow> int" where
  "yearEstimate d = 1970 + (if 0 \<le> d then d div 366 else d div 365)"

lemma div_succ:
  fixes x n :: int
  assumes "0 < n"
  shows "(x + 1) div n = x div n + (if (x + 1) mod n = 0 then 1 else 0)"
proof -
  define q where "q = x div n"
  define r where "r = x mod n"
  have x: "x = n * q + r" and r0: "0 \<le> r" and rn: "r < n"
    using assms by (simp_all add: q_def r_def)
  show ?thesis
  proof (cases "r + 1 = n")
    case True
    then have e: "x + 1 = n * (q + 1) + 0" using x by (simp add: algebra_simps)
    have "(x + 1) div n = q + 1"
      by (rule int_div_pos_eq [OF e]) (use assms in simp_all)
    moreover have "(x + 1) mod n = 0"
      by (rule int_mod_pos_eq [OF e]) (use assms in simp_all)
    ultimately show ?thesis by (simp add: q_def)
  next
    case False
    then have lt: "r + 1 < n" using rn by simp
    have e: "x + 1 = n * q + (r + 1)" using x by simp
    have "(x + 1) div n = q"
      by (rule int_div_pos_eq [OF e]) (use r0 lt in simp_all)
    moreover have "(x + 1) mod n = r + 1"
      by (rule int_mod_pos_eq [OF e]) (use r0 lt in simp_all)
    ultimately show ?thesis using r0 by (simp add: q_def)
  qed
qed

lemma shift_mod:
  fixes y :: int
  shows "(y - k * n) mod n = y mod n"
  by (metis mod_mult_self1 uminus_add_conv_diff add.commute mult_minus_left)

lemma DayFromYear_step: "DayFromYear (y + 1) = DayFromYear y + DaysInYear y"
proof -
  have a4: "(y - 1969 + 1) mod 4 = y mod 4"
    using shift_mod [of y 492 4] by simp
  have a100: "(y - 1901 + 1) mod 100 = y mod 100"
    using shift_mod [of y 19 100] by simp
  have a400: "(y - 1601 + 1) mod 400 = y mod 400"
    using shift_mod [of y 4 400] by simp
  have d4: "y mod 100 = 0 \<Longrightarrow> y mod 4 = 0"
    using mod_mod_cancel [of 4 100 y] by simp
  have d100: "y mod 400 = 0 \<Longrightarrow> y mod 100 = 0"
    using mod_mod_cancel [of 100 400 y] by simp
  have a: "(y + 1 - 1969) div 4 = (y - 1969) div 4 + (if y mod 4 = 0 then 1 else 0)"
    using div_succ [of 4 "y - 1969"] a4 by (simp add: algebra_simps)
  have b: "(y + 1 - 1901) div 100 = (y - 1901) div 100 + (if y mod 100 = 0 then 1 else 0)"
    using div_succ [of 100 "y - 1901"] a100 by (simp add: algebra_simps)
  have c: "(y + 1 - 1601) div 400 = (y - 1601) div 400 + (if y mod 400 = 0 then 1 else 0)"
    using div_succ [of 400 "y - 1601"] a400 by (simp add: algebra_simps)
  show ?thesis
    unfolding DayFromYear_def DaysInYear_def a b c using d4 d100
    by (simp add: algebra_simps)
qed

lemma DaysInYear_bounds: "365 \<le> DaysInYear y" "DaysInYear y \<le> 366"
  by (simp_all add: DaysInYear_def)

function yearSearch :: "int \<Rightarrow> int \<Rightarrow> int" where
  "yearSearch d y = (if DayFromYear (y + 1) \<le> d then yearSearch d (y + 1) else y)"
  by pat_completeness auto
termination
proof (relation "measure (\<lambda>(d, y). nat (d - DayFromYear y))")
  show "wf (measure (\<lambda>(d, y). nat (d - DayFromYear y)))" by simp
next
  fix d y :: int
  assume "DayFromYear (y + 1) \<le> d"
  then show "((d, y + 1), (d, y)) \<in> measure (\<lambda>(d, y). nat (d - DayFromYear y))"
    using DayFromYear_step [of y] DaysInYear_bounds(1) [of y] by simp
qed

declare yearSearch.simps [simp del]

definition YearFromDay :: "int \<Rightarrow> int" where
  "YearFromDay d = yearSearch d (yearEstimate d)"

definition InLeapYear :: "int \<Rightarrow> int" where
  "InLeapYear y = (if DaysInYear y = 366 then 1 else 0)"

text \<open>
  \<open>monthStart leap m\<close> is the number of the first day of month \<open>m\<close> (0 is January)
  within its year; \<open>monthStart leap 12\<close> is the length of the year.
\<close>

definition monthStart :: "int \<Rightarrow> int \<Rightarrow> int" where
  "monthStart leap m =
     (if m \<le> 0 then 0
      else if m = 1 then 31
      else if m = 2 then 59 + leap
      else if m = 3 then 90 + leap
      else if m = 4 then 120 + leap
      else if m = 5 then 151 + leap
      else if m = 6 then 181 + leap
      else if m = 7 then 212 + leap
      else if m = 8 then 243 + leap
      else if m = 9 then 273 + leap
      else if m = 10 then 304 + leap
      else if m = 11 then 334 + leap
      else 365 + leap)"

definition monthOfDayInYear :: "int \<Rightarrow> int \<Rightarrow> int" where
  "monthOfDayInYear leap dy =
     (if dy < 31 then 0
      else if dy < 59 + leap then 1
      else if dy < 90 + leap then 2
      else if dy < 120 + leap then 3
      else if dy < 151 + leap then 4
      else if dy < 181 + leap then 5
      else if dy < 212 + leap then 6
      else if dy < 243 + leap then 7
      else if dy < 273 + leap then 8
      else if dy < 304 + leap then 9
      else if dy < 334 + leap then 10
      else 11)"

definition DaysInMonth :: "int \<Rightarrow> int \<Rightarrow> int" where
  "DaysInMonth y m = monthStart (InLeapYear y) (m + 1) - monthStart (InLeapYear y) m"

definition YearFromTime :: "int \<Rightarrow> int" where
  "YearFromTime t = YearFromDay (Day t)"

definition DayWithinYear :: "int \<Rightarrow> int" where
  "DayWithinYear t = Day t - DayFromYear (YearFromTime t)"

definition MonthFromTime :: "int \<Rightarrow> int" where
  "MonthFromTime t = monthOfDayInYear (InLeapYear (YearFromTime t)) (DayWithinYear t)"

definition DateFromTime :: "int \<Rightarrow> int" where
  "DateFromTime t =
     DayWithinYear t - monthStart (InLeapYear (YearFromTime t)) (MonthFromTime t) + 1"

definition MakeDay :: "int \<Rightarrow> int \<Rightarrow> int \<Rightarrow> int" where
  "MakeDay year month dt =
     (let ym = year + month div 12; mn = month mod 12
      in DayFromYear ym + monthStart (InLeapYear ym) mn + dt - 1)"

definition MakeDate :: "int \<Rightarrow> int \<Rightarrow> int" where
  "MakeDate day time = day * msPerDay + time"

definition TimeClip :: "int \<Rightarrow> jsdate" where
  "TimeClip t = (if \<bar>t\<bar> \<le> 8640000000000000 then Date t else InvalidDate)"

text \<open>
  What the code reads from its host: the offset of local time from UTC in
  milliseconds (taken as constant: Malaysia, whose numbers the application dials, has
  no daylight saving), and the host's parser of date strings, \<^verbatim>\<open>new Date(string)\<close>.
  The parser is a parameter because the standard fixes it only on the ISO format and
  leaves every other string to the engine.
\<close>

record host =
  LocalTZA :: int
  DateParse :: "string \<Rightarrow> jsdate"

definition LocalTime :: "'a host_scheme \<Rightarrow> int \<Rightarrow> int" where
  "LocalTime h t = t + LocalTZA h"

definition UTC :: "'a host_scheme \<Rightarrow> int \<Rightarrow> int" where
  "UTC h t = t - LocalTZA h"

definition getFullYear :: "'a host_scheme \<Rightarrow> int \<Rightarrow> int" where
  "getFullYear h t = YearFromTime (LocalTime h t)"

definition getMonth :: "'a host_scheme \<Rightarrow> int \<Rightarrow> int" where
  "getMonth h t = MonthFromTime (LocalTime h t)"

definition getDate :: "'a host_scheme \<Rightarrow> int \<Rightarrow> int" where
  "getDate h t = DateFromTime (LocalTime h t)"

text \<open>The setters, on a Date that holds the time value \<open>t\<close>.\<close>

definition setDate :: "'a host_scheme \<Rightarrow> int \<Rightarrow> int \<Rightarrow> jsdate" where
  "setDate h dt t =
     (let lt = LocalTime h t
      in TimeClip (UTC h (MakeDate (MakeDay (YearFromTime lt) (MonthFromTime lt) dt)
                                   (TimeWithinDay lt))))"

definition setMonth :: "'a host_scheme \<Rightarrow> int \<Rightarrow> int \<Rightarrow> jsdate" where
  "setMonth h m t =
     (let lt = LocalTime h t
      in TimeClip (UTC h (MakeDate (MakeDay (YearFromTime lt) m (DateFromTime lt))
                                   (TimeWithinDay lt))))"

definition setFullYear :: "'a host_scheme \<Rightarrow> int \<Rightarrow> int \<Rightarrow> jsdate" where
  "setFullYear h y t =
     (let lt = LocalTime h t
      in TimeClip (UTC h (MakeDate (MakeDay y (MonthFromTime lt) (DateFromTime lt))
                                   (TimeWithinDay lt))))"

text \<open>\<^verbatim>\<open>setHours(0, 0, 0, 0)\<close>: local midnight of the same local day.\<close>

definition setHours0 :: "'a host_scheme \<Rightarrow> jsdate \<Rightarrow> jsdate" where
  "setHours0 h d =
     (case d of
        InvalidDate \<Rightarrow> InvalidDate
      | Date t \<Rightarrow> TimeClip (UTC h (MakeDate (Day (LocalTime h t)) 0)))"

text \<open>The time value of local midnight of the local day of \<open>t\<close>.\<close>

definition localMidnight :: "'a host_scheme \<Rightarrow> int \<Rightarrow> int" where
  "localMidnight h t = UTC h (MakeDate (Day (LocalTime h t)) 0)"

text \<open>
  The relational operators on Dates compare the time values; a comparison with an
  Invalid Date (NaN) is false.
\<close>

definition date_lt :: "jsdate \<Rightarrow> jsdate \<Rightarrow> bool" where
  "date_lt a b = (case (a, b) of (Date x, Date y) \<Rightarrow> x < y | _ \<Rightarrow> False)"

definition date_le :: "jsdate \<Rightarrow> jsdate \<Rightarrow> bool" where
  "date_le a b = (case (a, b) of (Date x, Date y) \<Rightarrow> x \<le> y | _ \<Rightarrow> False)"

definition date_ge :: "jsdate \<Rightarrow> jsdate \<Rightarrow> bool" where
  "date_ge a b = date_le b a"

text \<open>
  \<^verbatim>\<open>new Date(Math.max.apply(null, ds.map(d => d.getTime())))\<close>: NaN as soon as one
  argument is NaN, and \<^verbatim>\<open>-Infinity\<close>, hence an Invalid Date, on no argument.
\<close>

definition max2 :: "jsdate \<Rightarrow> jsdate \<Rightarrow> jsdate" where
  "max2 a b = (case (a, b) of (Date x, Date y) \<Rightarrow> Date (max x y) | _ \<Rightarrow> InvalidDate)"

definition newDateOfMax :: "jsdate list \<Rightarrow> jsdate" where
  "newDateOfMax ds = (case ds of [] \<Rightarrow> InvalidDate | d # rest \<Rightarrow> foldl max2 d rest)"

text \<open>
  The date-only ISO format \<^verbatim>\<open>YYYY-MM-DD\<close>, which the standard reads as midnight UTC
  and \<^verbatim>\<open>types.ts\<close> documents for \<^verbatim>\<open>purchaseDate\<close> and \<^verbatim>\<open>installDate\<close>. It is the
  parser of the concrete hosts below.
\<close>

definition digitVal :: "char \<Rightarrow> int option" where
  "digitVal c =
     (if 48 \<le> (of_char c :: nat) \<and> (of_char c :: nat) \<le> 57
      then Some (int (of_char c) - 48) else None)"

fun parseDigits :: "int \<Rightarrow> string \<Rightarrow> int option" where
  "parseDigits acc [] = Some acc"
| "parseDigits acc (c # cs) =
     (case digitVal c of None \<Rightarrow> None | Some v \<Rightarrow> parseDigits (acc * 10 + v) cs)"

definition parseISODate :: "string \<Rightarrow> jsdate" where
  "parseISODate s =
     (if length s = 10 \<and> s ! 4 = CHR ''-'' \<and> s ! 7 = CHR ''-'' then
        (case (parseDigits 0 (take 4 s), parseDigits 0 (take 2 (drop 5 s)),
               parseDigits 0 (drop 8 s)) of
           (Some y, Some m, Some d) \<Rightarrow>
             if 1 \<le> m \<and> m \<le> 12 \<and> 1 \<le> d \<and> d \<le> DaysInMonth y (m - 1)
             then TimeClip (MakeDate (MakeDay y (m - 1) d) 0)
             else InvalidDate
         | _ \<Rightarrow> InvalidDate)
      else InvalidDate)"

text \<open>A host in Malaysia (UTC+8).\<close>

definition hostMY :: host where
  "hostMY = \<lparr>LocalTZA = 28800000, DateParse = parseISODate\<rparr>"

section \<open>Data model (\<^verbatim>\<open>src/types.ts\<close>)\<close>

record Product =
  productName :: string
  serialNumber :: string
  purchaseDate :: string
  productWarrantyPeriod :: int
  productWarrantyUnit :: string

record ServicesProvided =
  "supply" :: bool
  install :: bool

record Warranty =
  warrantyId :: string
  customerName :: string
  phoneNumber :: string
  email :: string
  products :: "Product list"
  servicesProvided :: "ServicesProvided option"
  installDate :: "string option"
  installationWarrantyPeriod :: int
  installationWarrantyUnit :: string
  postcode :: string
  district :: string
  state :: string
  buildingType :: string
  otherBuildingType :: "string option"

datatype WarrantyStatus = Active | ExpiringSoon | Expired

record WarrantyStatusInfo =
  status :: WarrantyStatus
  color :: string
  expiryDate :: jsdate

section \<open>Date/Expiry calculator (\<^verbatim>\<open>src/utils/warrantyUtils.ts\<close>)\<close>

text \<open>
  The first argument of \<^verbatim>\<open>calculateExpiryDate\<close> and \<^verbatim>\<open>formatDate\<close>: a string, a Date,
  or nothing (\<^verbatim>\<open>undefined\<close>, \<^verbatim>\<open>null\<close>).
\<close>

datatype dateArg = Absent | DateStr string | DateObj jsdate

definition falsyArg :: "dateArg \<Rightarrow> bool" where
  "falsyArg a = (case a of Absent \<Rightarrow> True | DateStr s \<Rightarrow> s = [] | DateObj _ \<Rightarrow> False)"

definition newDate :: "'a host_scheme \<Rightarrow> dateArg \<Rightarrow> jsdate" where
  "newDate h a =
     (case a of Absent \<Rightarrow> InvalidDate | DateStr s \<Rightarrow> DateParse h s | DateObj d \<Rightarrow> d)"

text \<open>
  The result is \<open>None\<close> for \<^verbatim>\<open>null\<close>; a Date that left the range of time values is
  returned as it is, invalid. The unit is a string, and the \<^verbatim>\<open>switch\<close> sends every
  string but the first three to the \<^verbatim>\<open>default\<close> branch, years. The period is an
  integer, as the data model has it; on integers the arithmetic of Date is exact.
\<close>

definition calculateExpiryDate ::
  "'a host_scheme \<Rightarrow> dateArg \<Rightarrow> int \<Rightarrow> string \<Rightarrow> jsdate option" where
  "calculateExpiryDate h startDate period unit =
     (if falsyArg startDate then None
      else case newDate h startDate of
        InvalidDate \<Rightarrow> None
      | Date t \<Rightarrow>
          Some (if unit = ''days'' then setDate h (getDate h t + period) t
                else if unit = ''weeks'' then setDate h (getDate h t + period * 7) t
                else if unit = ''months'' then setMonth h (getMonth h t + period) t
                else setFullYear h (getFullYear h t + period) t))"

text \<open>
  The month and the year that adding \<open>period\<close> months to the local date of \<open>t\<close> reaches,
  before the day of the month is looked at.
\<close>

definition targetYear :: "'a host_scheme \<Rightarrow> int \<Rightarrow> int \<Rightarrow> int" where
  "targetYear h t period = getFullYear h t + (getMonth h t + period) div 12"

definition targetMonth :: "'a host_scheme \<Rightarrow> int \<Rightarrow> int \<Rightarrow> int" where
  "targetMonth h t period = (getMonth h t + period) mod 12"

text \<open>Strings of numbers, as template literals and \<^verbatim>\<open>String(n)\<close> print integers.\<close>

fun showNat :: "nat \<Rightarrow> string" where
  "showNat n =
     (if n < 10 then [char_of (48 + n)]
      else showNat (n div 10) @ [char_of (48 + n mod 10)])"

declare showNat.simps [simp del]

definition showInt :: "int \<Rightarrow> string" where
  "showInt i = (if i < 0 then CHR ''-'' # showNat (nat (- i)) else showNat (nat i))"

definition padStart2 :: "string \<Rightarrow> string" where
  "padStart2 s = replicate (2 - length s) (CHR ''0'') @ s"

definition formatDate :: "'a host_scheme \<Rightarrow> dateArg \<Rightarrow> string" where
  "formatDate h date =
     (if falsyArg date then ''N/A''
      else case newDate h date of
        InvalidDate \<Rightarrow> ''Invalid Date''
      | Date t \<Rightarrow>
          if getFullYear h t > 9000 then ''Does not expire''
          else padStart2 (showInt (getDate h t)) @ ''/'' @
               padStart2 (showInt (getMonth h t + 1)) @ ''/'' @
               showInt (getFullYear h t))"

section \<open>Status classifier\<close>

text \<open>
  The \<^verbatim>\<open>forEach\<close> over the products, with the array \<^verbatim>\<open>allExpiryDates\<close> it pushes to as
  accumulator. A Date object is truthy even when invalid, so \<^verbatim>\<open>if (expiry)\<close> only
  drops \<^verbatim>\<open>null\<close>.
\<close>

fun pushProductExpiries :: "'a host_scheme \<Rightarrow> Product list \<Rightarrow> jsdate list \<Rightarrow> jsdate list" where
  "pushProductExpiries h [] acc = acc"
| "pushProductExpiries h (p # ps) acc =
     pushProductExpiries h ps
       (if productWarrantyPeriod p > 0 then
          (case calculateExpiryDate h (DateStr (purchaseDate p)) (productWarrantyPeriod p)
                  (productWarrantyUnit p) of
             None \<Rightarrow> acc
           | Some expiry \<Rightarrow> acc @ [expiry])
        else acc)"

text \<open>\<^verbatim>\<open>warranty.servicesProvided?.install\<close> and the truthiness of an optional string.\<close>

definition servicesInstall :: "'a Warranty_scheme \<Rightarrow> bool" where
  "servicesInstall w = (case servicesProvided w of None \<Rightarrow> False | Some s \<Rightarrow> install s)"

definition truthyStr :: "string option \<Rightarrow> bool" where
  "truthyStr x = (case x of None \<Rightarrow> False | Some s \<Rightarrow> s \<noteq> [])"

definition optArg :: "string option \<Rightarrow> dateArg" where
  "optArg x = (case x of None \<Rightarrow> Absent | Some s \<Rightarrow> DateStr s)"

definition allExpiryDates :: "'a host_scheme \<Rightarrow> 'b Warranty_scheme \<Rightarrow> jsdate list" where
  "allExpiryDates h w =
     (let ds = pushProductExpiries h (products w) []
      in if servicesInstall w \<and> truthyStr (installDate w) \<and> installationWarrantyPeriod w > 0
         then (case calculateExpiryDate h (optArg (installDate w))
                      (installationWarrantyPeriod w) (installationWarrantyUnit w) of
                 None \<Rightarrow> ds
               | Some installExpiryDate \<Rightarrow> ds @ [installExpiryDate])
         else ds)"

text \<open>
  The three dates the classifier compares. \<open>now\<close> is the time value that \<^verbatim>\<open>new Date()\<close>
  reads from the clock; the function reads it twice in a row, and both reads are
  taken to give the same value. \<^verbatim>\<open>getDate\<close> of an Invalid Date is NaN, and \<^verbatim>\<open>setDate\<close>
  of NaN invalidates the Date.
\<close>

definition latestExpiryDate :: "'a host_scheme \<Rightarrow> 'b Warranty_scheme \<Rightarrow> jsdate" where
  "latestExpiryDate h w = setHours0 h (newDateOfMax (allExpiryDates h w))"

definition today :: "'a host_scheme \<Rightarrow> int \<Rightarrow> jsdate" where
  "today h now = setHours0 h (Date now)"

definition thirtyDaysFromNow :: "'a host_scheme \<Rightarrow> int \<Rightarrow> jsdate" where
  "thirtyDaysFromNow h now =
     setHours0 h (case today h now of
                    InvalidDate \<Rightarrow> InvalidDate
                  | Date t0 \<Rightarrow> setDate h (getDate h t0 + 30) now)"

definition getWarrantyStatusInfo ::
  "'a host_scheme \<Rightarrow> int \<Rightarrow> 'b Warranty_scheme \<Rightarrow> WarrantyStatusInfo" where
  "getWarrantyStatusInfo h now w =
     (if allExpiryDates h w = [] then
        \<lparr>status = Active, color = ''bg-brand-success'',
         expiryDate = newDate h (DateStr ''9999-12-31'')\<rparr>
      else if date_lt (latestExpiryDate h w) (today h now) then
        \<lparr>status = Expired, color = ''bg-brand-danger'', expiryDate = latestExpiryDate h w\<rparr>
      else if date_le (latestExpiryDate h w) (thirtyDaysFromNow h now) then
        \<lparr>status = ExpiringSoon, color = ''bg-brand-warning'',
         expiryDate = latestExpiryDate h w\<rparr>
      else
        \<lparr>status = Active, color = ''bg-brand-success'', expiryDate = latestExpiryDate h w\<rparr>)"

section \<open>Share dispatcher: the WhatsApp number\<close>

definition isDigit :: "char \<Rightarrow> bool" where
  "isDigit c = (48 \<le> (of_char c :: nat) \<and> (of_char c :: nat) \<le> 57)"

definition startsWith :: "string \<Rightarrow> string \<Rightarrow> bool" where
  "startsWith s p = (take (length p) s = p)"

definition formatPhoneNumberForWhatsApp :: "string \<Rightarrow> string" where
  "formatPhoneNumberForWhatsApp phone =
     (if phone = [] then []
      else
        let cleaned = filter isDigit phone;
            cleaned = (if startsWith cleaned ''0'' then ''6'' @ cleaned else cleaned);
            cleaned = (if \<not> startsWith cleaned ''60'' then ''60'' @ cleaned else cleaned)
        in cleaned)"

section \<open>Message composer\<close>

definition formatWarrantyText :: "int \<Rightarrow> string \<Rightarrow> string" where
  "formatWarrantyText period unit =
     (if period = 0 then ''0 '' @ unit
      else showInt period @ '' '' @ (if period = 1 then butlast unit else unit))"

definition getServiceText :: "ServicesProvided option \<Rightarrow> string" where
  "getServiceText services =
     (case services of
        None \<Rightarrow> ''N/A''
      | Some s \<Rightarrow>
          if supply s \<and> \<not> install s then ''Supply Only''
          else if \<not> supply s \<and> install s then ''Install''
          else if supply s \<and> install s then ''Supply & Install''
          else ''N/A'')"

definition expiryText :: "'a host_scheme \<Rightarrow> jsdate option \<Rightarrow> string" where
  "expiryText h expiry = (case expiry of None \<Rightarrow> ''N/A'' | Some d \<Rightarrow> formatDate h (DateObj d))"

definition productExpiry :: "'a host_scheme \<Rightarrow> Product \<Rightarrow> jsdate option" where
  "productExpiry h p =
     calculateExpiryDate h (DateStr (purchaseDate p)) (productWarrantyPeriod p)
       (productWarrantyUnit p)"

text \<open>The filter of reminder mode: \<^verbatim>\<open>expiry ? expiry >= today : false\<close>.\<close>

definition unexpired :: "'a host_scheme \<Rightarrow> int \<Rightarrow> jsdate option \<Rightarrow> bool" where
  "unexpired h now expiry =
     (case expiry of None \<Rightarrow> False | Some d \<Rightarrow> date_ge d (today h now))"

definition isUnexpiredProduct :: "'a host_scheme \<Rightarrow> int \<Rightarrow> Product \<Rightarrow> bool" where
  "isUnexpiredProduct h now p =
     (if productWarrantyPeriod p \<le> 0 then False else unexpired h now (productExpiry h p))"

definition productLines :: "'a host_scheme \<Rightarrow> string \<Rightarrow> Product \<Rightarrow> string" where
  "productLines h label p =
     label @ productName p @ ''\<newline>'' @
     ''  Serial Number: '' @ serialNumber p @ ''\<newline>'' @
     ''  Purchase Date: '' @ formatDate h (DateStr (purchaseDate p)) @ ''\<newline>'' @
     ''  Warranty: '' @ formatWarrantyText (productWarrantyPeriod p) (productWarrantyUnit p) @
       ''\<newline>'' @
     ''  Expires on: '' @ expiryText h (productExpiry h p) @ ''\<newline>\<newline>''"

text \<open>The two \<^verbatim>\<open>forEach\<close> loops that append to \<^verbatim>\<open>message\<close>; the second numbers its items.\<close>

fun appendReminderItems :: "'a host_scheme \<Rightarrow> Product list \<Rightarrow> string \<Rightarrow> string" where
  "appendReminderItems h [] message = message"
| "appendReminderItems h (p # ps) message =
     appendReminderItems h ps (message @ productLines h ''Item: '' p)"

fun appendShareItems :: "'a host_scheme \<Rightarrow> nat \<Rightarrow> Product list \<Rightarrow> string \<Rightarrow> string" where
  "appendShareItems h i [] message = message"
| "appendShareItems h i (p # ps) message =
     appendShareItems h (i + 1) ps
       (message @ productLines h (''Item '' @ showNat (i + 1) @ '': '') p)"

definition installationExpiryReminder :: "'a host_scheme \<Rightarrow> 'b Warranty_scheme \<Rightarrow> jsdate option" where
  "installationExpiryReminder h w =
     (if truthyStr (installDate w) \<and> installationWarrantyPeriod w > 0
      then calculateExpiryDate h (optArg (installDate w)) (installationWarrantyPeriod w)
             (installationWarrantyUnit w)
      else None)"

definition fallbackReminder :: "'b Warranty_scheme \<Rightarrow> string" where
  "fallbackReminder w =
     ''Hi '' @ customerName w @
     '',\<newline>\<newline>This is a friendly reminder regarding your warranties. Please review your records for items that may be expiring soon.\<newline>\<newline>Thank you!''"

definition generateShareMessage ::
  "'a host_scheme \<Rightarrow> int \<Rightarrow> 'b Warranty_scheme \<Rightarrow> bool \<Rightarrow> string" where
  "generateShareMessage h now w isReminder =
     (let message = ''Hi '' @ customerName w @ '',\<newline>\<newline>'' in
      if isReminder then
        let message = message @
              ''This is a friendly reminder that the warranty for the following item(s) is expiring soon. Here are the details:\<newline>\<newline>'';
            unexpiredProducts = filter (isUnexpiredProduct h now) (products w);
            installationExpiry = installationExpiryReminder h w;
            isInstallationUnexpired = unexpired h now installationExpiry;
            (message, contentAdded) =
              (if unexpiredProducts \<noteq> []
               then (appendReminderItems h unexpiredProducts
                       (message @ ''--- Products & Warranties ---\<newline>''), True)
               else (message, False));
            (message, contentAdded) =
              (if servicesInstall w \<and> isInstallationUnexpired
               then (message @ ''--- Service Information ---\<newline>'' @
                       ''Service Type: Installation\<newline>'' @
                       ''Installation Date: '' @ formatDate h (optArg (installDate w)) @
                         ''\<newline>'' @
                       ''Installation Warranty: '' @
                         formatWarrantyText (installationWarrantyPeriod w)
                           (installationWarrantyUnit w) @ ''\<newline>'' @
                       ''Installation Warranty Expires: '' @ expiryText h installationExpiry @
                         ''\<newline>\<newline>'', True)
               else (message, contentAdded))
        in if \<not> contentAdded then fallbackReminder w else message @ ''Thank you!''
      else
        let message = message @ ''Here are the warranty details for your recent purchase:\<newline>\<newline>'';
            message =
              (if products w \<noteq> []
               then appendShareItems h 0 (products w)
                      (message @ ''--- Products & Warranties ---\<newline>'')
               else message);
            message = message @ ''--- Service Information ---\<newline>'' @
                      ''Services Provided: '' @ getServiceText (servicesProvided w) @ ''\<newline>'';
            message =
              (if servicesInstall w then
                 let installationExpiry =
                       (if truthyStr (installDate w)
                        then calculateExpiryDate h (optArg (installDate w))
                               (installationWarrantyPeriod w) (installationWarrantyUnit w)
                        else None);
                     message = message @ ''Installation Date: '' @
                               formatDate h (optArg (installDate w)) @ ''\<newline>''
                 in if installationWarrantyPeriod w > 0
                    then message @ ''Installation Warranty: '' @
                           formatWarrantyText (installationWarrantyPeriod w)
                             (installationWarrantyUnit w) @ ''\<newline>'' @
                         ''Installation Warranty Expires: '' @ expiryText h installationExpiry @
                           ''\<newline>''
                    else message
               else message)
        in message @ ''\<newline>'' @ ''Thank you for your purchase!'')"

section \<open>Schema migrator (\<^verbatim>\<open>src/App.tsx\<close>)\<close>

text \<open>
  The migration reads stored records through \<^verbatim>\<open>any\<close>: every field it touches may be
  missing. A field that is absent, \<^verbatim>\<open>undefined\<close> or \<^verbatim>\<open>null\<close> is \<open>None\<close>; a field that is
  present has the type of its declaration. The fields carry the prefix \<open>p_\<close> on a
  product and \<open>w_\<close> on a warranty record, since \<^verbatim>\<open>productName\<close> and its four companions
  occur at both levels. The fields of a record that the migration never names
  (\<^verbatim>\<open>id\<close>, \<^verbatim>\<open>customerName\<close>, ...) are the extension part of the record, which the object
  spread copies.
\<close>

record AnyProduct =
  p_productName :: "string option"
  p_serialNumber :: "string option"
  p_purchaseDate :: "string option"
  p_productWarrantyPeriod :: "int option"
  p_productWarrantyUnit :: "string option"

record StoredWarranty =
  w_productName :: "string option"
  w_serialNumber :: "string option"
  w_purchaseDate :: "string option"
  w_productWarrantyPeriod :: "int option"
  w_productWarrantyUnit :: "string option"
  w_products :: "AnyProduct list option"
  w_servicesProvided :: "ServicesProvided option"
  w_installDate :: "string option"
  w_installationWarrantyPeriod :: "int option"

text \<open>\<^verbatim>\<open>a || b\<close> on optional strings, \<^verbatim>\<open>a ?? b\<close>, and the truthiness of an optional number.\<close>

definition orStr :: "string option \<Rightarrow> string option \<Rightarrow> string option" where
  "orStr a b = (if truthyStr a then a else b)"

definition nullish :: "'v option \<Rightarrow> 'v option \<Rightarrow> 'v option" where
  "nullish a b = (case a of None \<Rightarrow> b | Some v \<Rightarrow> Some v)"

definition truthyNum :: "int option \<Rightarrow> bool" where
  "truthyNum x = (case x of None \<Rightarrow> False | Some n \<Rightarrow> n \<noteq> 0)"

definition positiveNum :: "int option \<Rightarrow> bool" where
  "positiveNum x = (case x of None \<Rightarrow> False | Some n \<Rightarrow> n > 0)"

text \<open>
  The test \<^verbatim>\<open>oldW.productName || oldW.purchaseDate\<close>, which decides both whether a record
  set needs the migration and whether a record takes the branch of the legacy fields.
\<close>

definition hasLegacyProductFields :: "'a StoredWarranty_scheme \<Rightarrow> bool" where
  "hasLegacyProductFields w = (truthyStr (w_productName w) \<or> truthyStr (w_purchaseDate w))"

definition needsMigration :: "'a StoredWarranty_scheme list \<Rightarrow> bool" where
  "needsMigration warranties =
     list_ex (\<lambda>w. hasLegacyProductFields w \<or> w_servicesProvided w = None) warranties"

definition inheritProduct :: "'a StoredWarranty_scheme \<Rightarrow> AnyProduct \<Rightarrow> AnyProduct" where
  "inheritProduct oldW p =
     p\<lparr>p_purchaseDate := orStr (p_purchaseDate p) (w_purchaseDate oldW),
       p_productWarrantyPeriod :=
         nullish (nullish (p_productWarrantyPeriod p) (w_productWarrantyPeriod oldW)) (Some 0),
       p_productWarrantyUnit :=
         orStr (orStr (p_productWarrantyUnit p) (w_productWarrantyUnit oldW)) (Some ''months'')\<rparr>"

definition legacyProduct :: "'a StoredWarranty_scheme \<Rightarrow> AnyProduct" where
  "legacyProduct oldW =
     \<lparr>p_productName = orStr (w_productName oldW) (Some []),
      p_serialNumber = orStr (w_serialNumber oldW) (Some []),
      p_purchaseDate = w_purchaseDate oldW,
      p_productWarrantyPeriod = nullish (w_productWarrantyPeriod oldW) (Some 0),
      p_productWarrantyUnit = orStr (w_productWarrantyUnit oldW) (Some ''months'')\<rparr>"

definition migratedProducts :: "'a StoredWarranty_scheme \<Rightarrow> AnyProduct list" where
  "migratedProducts oldW =
     (case w_products oldW of
        Some (p # ps) \<Rightarrow> map (inheritProduct oldW) (p # ps)
      | _ \<Rightarrow> [legacyProduct oldW])"

definition migrateWarranty :: "'a StoredWarranty_scheme \<Rightarrow> 'a StoredWarranty_scheme" where
  "migrateWarranty w =
     (let newWarranty =
            (if hasLegacyProductFields w
             then w\<lparr>w_products := Some (migratedProducts w),
                    w_productName := None,
                    w_serialNumber := None,
                    w_purchaseDate := None,
                    w_productWarrantyPeriod := None,
                    w_productWarrantyUnit := None\<rparr>
             else w)
      in if w_servicesProvided w = None
         then newWarranty\<lparr>w_servicesProvided :=
                Some \<lparr>supply = \<not> truthyStr (w_installDate w) \<and>
                                \<not> truthyNum (w_installationWarrantyPeriod w),
                      install = truthyStr (w_installDate w) \<or>
                                positiveNum (w_installationWarrantyPeriod w)\<rparr>\<rparr>
         else newWarranty)"

text \<open>The effect at startup, as a function of the stored record set: the set written
  back, or the set left as it is.\<close>

definition migrate :: "'a StoredWarranty_scheme list \<Rightarrow> 'a StoredWarranty_scheme list" where
  "migrate warranties =
     (if needsMigration warranties then map migrateWarranty warranties else warranties)"

text \<open>
  The migration is an effect of \<^verbatim>\<open>App\<close>, and React runs the effects of a component only
  after its render has gone through. The render of \<^verbatim>\<open>App\<close> computes \<^verbatim>\<open>productList\<close> from
  the stored records before anything is migrated:
  \<^verbatim>\<open>warranties.flatMap(w => w.products.map(p => p.productName))\<close>.
  Reading \<^verbatim>\<open>map\<close> of a missing \<^verbatim>\<open>products\<close> throws a TypeError, which no part of the
  application catches; the names are then made unique and sorted, which cannot throw.
\<close>

datatype jsError = TypeError

fun allProductNames :: "'a StoredWarranty_scheme list \<Rightarrow> jsError + string option list" where
  "allProductNames [] = Inr []"
| "allProductNames (w # ws) =
     (case w_products w of
        None \<Rightarrow> Inl TypeError
      | Some ps \<Rightarrow>
          (case allProductNames ws of
             Inl e \<Rightarrow> Inl e
           | Inr names \<Rightarrow> Inr (map p_productName ps @ names)))"

text \<open>
  The first load of the application on a stored record set: the render of \<^verbatim>\<open>App\<close>, then
  the effect. \<open>Inl\<close> is the exception of the render, with the stored set left as it was;
  \<open>Inr\<close> is the record set after the effect.
\<close>

definition appFirstLoad ::
  "'a StoredWarranty_scheme list \<Rightarrow> jsError + 'a StoredWarranty_scheme list" where
  "appFirstLoad warranties =
     (case allProductNames warranties of
        Inl e \<Rightarrow> Inl e
      | Inr names \<Rightarrow> Inr (migrate warranties))"

section \<open>Example records\<close>

text \<open>The legacy record of the specification's migration example.\<close>

definition legacyFan :: StoredWarranty where
  "legacyFan =
     \<lparr>w_productName = Some ''Fan'', w_serialNumber = None,
      w_purchaseDate = Some ''2023-06-01'', w_productWarrantyPeriod = Some 2,
      w_productWarrantyUnit = Some ''years'', w_products = None,
      w_servicesProvided = None, w_installDate = None,
      w_installationWarrantyPeriod = None\<rparr>"

text \<open>The same record with an empty \<^verbatim>\<open>products\<close> array.\<close>

definition legacyFanEmptyProducts :: StoredWarranty where
  "legacyFanEmptyProducts = legacyFan\<lparr>w_products := Some []\<rparr>"

text \<open>
  A warranty with one product, bought on 14 January 2024 with 31 days of warranty, and
  no installation; and the same warranty with the period of the product set to 0.
\<close>

definition fanWarranty :: Warranty where
  "fanWarranty =
     \<lparr>warrantyId = ''2024-01-14T02:00:00.000Z'', customerName = ''Ali'',
      phoneNumber = ''012-3456789'', email = ''ali@example.com'',
      products =
        [\<lparr>productName = ''Fan'', serialNumber = ''S1'', purchaseDate = ''2024-01-14'',
          productWarrantyPeriod = 31, productWarrantyUnit = ''days''\<rparr>],
      servicesProvided = Some \<lparr>supply = True, install = False\<rparr>,
      installDate = None, installationWarrantyPeriod = 0,
      installationWarrantyUnit = ''months'', postcode = ''50000'',
      district = ''Kuala Lumpur'', state = ''W.P. Kuala Lumpur'',
      buildingType = ''home'', otherBuildingType = None\<rparr>"

definition zeroPeriodWarranty :: Warranty where
  "zeroPeriodWarranty =
     fanWarranty\<lparr>products :=
       [\<lparr>productName = ''Fan'', serialNumber = ''S1'', purchaseDate = ''2024-01-14'',
         productWarrantyPeriod = 0, productWarrantyUnit = ''days''\<rparr>]\<rparr>"

section \<open>Facts about the calendar\<close>


lemma DayFromYear_1970: "DayFromYear 1970 = 0"
  by (simp add: DayFromYear_def)

lemma DayFromYear_upper_nat: "DayFromYear (1970 + int k) \<le> 366 * int k"
proof (induction k)
  case 0
  show ?case by (simp add: DayFromYear_1970)
next
  case (Suc k)
  have "DayFromYear (1970 + int (Suc k)) = DayFromYear (1970 + int k) + DaysInYear (1970 + int k)"
    using DayFromYear_step [of "1970 + int k"] by (simp add: algebra_simps)
  then show ?case using Suc DaysInYear_bounds(2) [of "1970 + int k"] by simp
qed

lemma DayFromYear_lower_nat: "DayFromYear (1970 - int k) \<le> - 365 * int k"
proof (induction k)
  case 0
  show ?case by (simp add: DayFromYear_1970)
next
  case (Suc k)
  have "DayFromYear (1970 - int k) = DayFromYear (1970 - int (Suc k)) + DaysInYear (1970 - int (Suc k))"
    using DayFromYear_step [of "1970 - int (Suc k)"] by (simp add: algebra_simps)
  then show ?case using Suc DaysInYear_bounds(1) [of "1970 - int (Suc k)"] by simp
qed

lemma yearEstimate_le: "DayFromYear (yearEstimate d) \<le> d"
proof (cases "0 \<le> d")
  case True
  then have k: "0 \<le> d div 366" by simp
  have "DayFromYear (1970 + int (nat (d div 366))) \<le> 366 * int (nat (d div 366))"
    by (rule DayFromYear_upper_nat)
  then have "DayFromYear (1970 + d div 366) \<le> 366 * (d div 366)" using k by simp
  moreover have "366 * (d div 366) \<le> d" by simp
  ultimately show ?thesis using True by (simp add: yearEstimate_def)
next
  case False
  then have k: "d div 365 \<le> 0" by simp
  have "DayFromYear (1970 - int (nat (- (d div 365)))) \<le> - 365 * int (nat (- (d div 365)))"
    by (rule DayFromYear_lower_nat)
  then have "DayFromYear (1970 + d div 365) \<le> 365 * (d div 365)" using k by simp
  moreover have "365 * (d div 365) \<le> d" by simp
  ultimately show ?thesis using False by (simp add: yearEstimate_def)
qed

lemma yearSearch_bounds:
  "DayFromYear y \<le> d \<Longrightarrow>
   DayFromYear (yearSearch d y) \<le> d \<and> d < DayFromYear (yearSearch d y + 1)"
proof (induction d y rule: yearSearch.induct)
  case (1 d y)
  show ?case
  proof (cases "DayFromYear (y + 1) \<le> d")
    case True
    then show ?thesis using "1.IH" by (subst (1 2) yearSearch.simps) simp
  next
    case False
    then show ?thesis using "1.prems" by (subst (1 2) yearSearch.simps) simp
  qed
qed

lemma YearFromDay_bounds:
  "DayFromYear (YearFromDay d) \<le> d" "d < DayFromYear (YearFromDay d + 1)"
  using yearSearch_bounds [OF yearEstimate_le [of d]] by (simp_all add: YearFromDay_def)

lemma DayFromYear_mono_nat: "DayFromYear y \<le> DayFromYear (y + int k)"
proof (induction k)
  case 0 show ?case by simp
next
  case (Suc k)
  have "DayFromYear (y + int (Suc k)) = DayFromYear (y + int k) + DaysInYear (y + int k)"
    using DayFromYear_step [of "y + int k"] by (simp add: algebra_simps)
  then show ?case using Suc DaysInYear_bounds(1) [of "y + int k"] by simp
qed

lemma DayFromYear_mono: "y \<le> z \<Longrightarrow> DayFromYear y \<le> DayFromYear z"
  using DayFromYear_mono_nat [of y "nat (z - y)"] by simp

lemma YearFromDay_unique:
  assumes "DayFromYear y \<le> d" "d < DayFromYear (y + 1)"
  shows "YearFromDay d = y"
proof (rule antisym)
  show "YearFromDay d \<le> y"
  proof (rule ccontr)
    assume "\<not> YearFromDay d \<le> y"
    then have "y + 1 \<le> YearFromDay d" by simp
    then have "DayFromYear (y + 1) \<le> DayFromYear (YearFromDay d)" by (rule DayFromYear_mono)
    then show False using assms(2) YearFromDay_bounds(1) [of d] by simp
  qed
next
  show "y \<le> YearFromDay d"
  proof (rule ccontr)
    assume "\<not> y \<le> YearFromDay d"
    then have "YearFromDay d + 1 \<le> y" by simp
    then have "DayFromYear (YearFromDay d + 1) \<le> DayFromYear y" by (rule DayFromYear_mono)
    then show False using assms(1) YearFromDay_bounds(2) [of d] by simp
  qed
qed

lemma InLeapYear_cases: "InLeapYear y = 0 \<or> InLeapYear y = 1"
  by (simp add: InLeapYear_def)

lemma DaysInYear_InLeapYear: "DaysInYear y = 365 + InLeapYear y"
  by (simp add: InLeapYear_def DaysInYear_def)

lemma Day_MakeDate: "0 \<le> tm \<Longrightarrow> tm < msPerDay \<Longrightarrow> Day (MakeDate d tm) = d"
  by (simp add: Day_def MakeDate_def msPerDay_def)

lemma TimeWithinDay_MakeDate:
  "0 \<le> tm \<Longrightarrow> tm < msPerDay \<Longrightarrow> TimeWithinDay (MakeDate d tm) = tm"
  by (simp add: TimeWithinDay_def MakeDate_def msPerDay_def)

lemma TimeWithinDay_range: "0 \<le> TimeWithinDay t" "TimeWithinDay t < msPerDay"
  by (simp_all add: TimeWithinDay_def msPerDay_def)

lemma MakeDate_Day: "MakeDate (Day t) (TimeWithinDay t) = t"
  by (simp add: MakeDate_def Day_def TimeWithinDay_def)

lemma monthOfDayInYear_range: "0 \<le> monthOfDayInYear l dy" "monthOfDayInYear l dy \<le> 11"
  by (simp_all add: monthOfDayInYear_def)

lemma MonthFromTime_range: "0 \<le> MonthFromTime t" "MonthFromTime t \<le> 11"
  by (simp_all add: MonthFromTime_def monthOfDayInYear_range)

text \<open>Putting the fields of a time back together gives its day, shifted by what was added to the date.\<close>

lemma MakeDay_own_fields:
  "MakeDay (YearFromTime t) (MonthFromTime t) (DateFromTime t + k) = Day t + k"
proof -
  have "MonthFromTime t div 12 = 0" "MonthFromTime t mod 12 = MonthFromTime t"
    using MonthFromTime_range [of t] by simp_all
  then show ?thesis
    by (simp add: MakeDay_def DateFromTime_def DayWithinYear_def Let_def)
qed

lemma monthOf_start:
  assumes "l = 0 \<or> l = 1" "0 \<le> m" "m \<le> 11" "1 \<le> dt" "dt \<le> monthStart l (m + 1) - monthStart l m"
  shows "monthOfDayInYear l (monthStart l m + dt - 1) = m"
proof -
  have "m = 0 \<or> m = 1 \<or> m = 2 \<or> m = 3 \<or> m = 4 \<or> m = 5 \<or> m = 6 \<or> m = 7 \<or> m = 8 \<or> m = 9 \<or> m = 10 \<or> m = 11"
    using assms(2,3) by arith
  then show ?thesis
    using assms(1,4,5)
    by (elim disjE) (simp_all add: monthStart_def monthOfDayInYear_def)
qed

lemma monthStart_mono: "0 \<le> l \<Longrightarrow> l \<le> 1 \<Longrightarrow> monthStart l m \<le> 365 + l"
  by (simp add: monthStart_def)

lemma monthStart_nonneg: "0 \<le> l \<Longrightarrow> 0 \<le> monthStart l m"
  by (simp add: monthStart_def)

text \<open>The fields of a well-formed civil date are recovered from its day number.\<close>

lemma fields_of_MakeDay:
  assumes m: "0 \<le> m" "m \<le> 11" and dt: "1 \<le> dt" "dt \<le> DaysInMonth y m"
      and t: "Day t = MakeDay y m dt"
  shows "YearFromTime t = y" "MonthFromTime t = m" "DateFromTime t = dt"
proof -
  define l where "l = InLeapYear y"
  have l: "l = 0 \<or> l = 1" using InLeapYear_cases [of y] by (simp add: l_def)
  have mm: "m div 12 = 0" "m mod 12 = m" using m by simp_all
  have d: "Day t = DayFromYear y + (monthStart l m + dt - 1)"
    using t mm by (simp add: MakeDay_def Let_def l_def)
  have dt': "dt \<le> monthStart l (m + 1) - monthStart l m"
    using dt(2) by (simp add: DaysInMonth_def l_def)
  have lo: "0 \<le> monthStart l m + dt - 1"
    using monthStart_nonneg [of l m] l dt(1) by auto
  have hi: "monthStart l m + dt - 1 < 365 + l"
    using dt' monthStart_mono [of l "m + 1"] l by auto
  have "DayFromYear (y + 1) = DayFromYear y + 365 + l"
    by (simp add: DayFromYear_step DaysInYear_InLeapYear l_def)
  then show y: "YearFromTime t = y"
    unfolding YearFromTime_def using d lo hi by (intro YearFromDay_unique) simp_all
  have dwy: "DayWithinYear t = monthStart l m + dt - 1"
    by (simp add: DayWithinYear_def y d)
  show mo: "MonthFromTime t = m"
    unfolding MonthFromTime_def y dwy l_def [symmetric]
    by (rule monthOf_start [OF l m dt(1) dt'])
  show "DateFromTime t = dt"
    by (simp add: DateFromTime_def y mo dwy l_def)
qed

lemma date_in_month:
  assumes "l = 0 \<or> l = 1" "0 \<le> dy" "dy < 365 + l"
  shows "monthStart l (monthOfDayInYear l dy) \<le> dy \<and>
         dy < monthStart l (monthOfDayInYear l dy + 1)"
  using assms by (auto simp: monthStart_def monthOfDayInYear_def)

text \<open>The fields of any time form a well-formed civil date.\<close>

lemma DateFromTime_range:
  "1 \<le> DateFromTime t" "DateFromTime t \<le> DaysInMonth (YearFromTime t) (MonthFromTime t)"
proof -
  define y where "y = YearFromTime t"
  define l where "l = InLeapYear y"
  have l: "l = 0 \<or> l = 1" using InLeapYear_cases [of y] by (simp add: l_def)
  have "DayFromYear y \<le> Day t" "Day t < DayFromYear (y + 1)"
    using YearFromDay_bounds [of "Day t"] by (simp_all add: y_def YearFromTime_def)
  then have "0 \<le> DayWithinYear t" "DayWithinYear t < 365 + l"
    by (simp_all add: DayWithinYear_def y_def [symmetric] DayFromYear_step DaysInYear_InLeapYear l_def)
  from date_in_month [OF l this]
  show "1 \<le> DateFromTime t" "DateFromTime t \<le> DaysInMonth (YearFromTime t) (MonthFromTime t)"
    by (simp_all add: DateFromTime_def MonthFromTime_def DaysInMonth_def y_def [symmetric] l_def [symmetric])
qed

lemma fields_depend_on_Day:
  assumes "Day a = Day b"
  shows "YearFromTime a = YearFromTime b" "MonthFromTime a = MonthFromTime b"
        "DateFromTime a = DateFromTime b"
  using assms
  by (simp_all add: DateFromTime_def DayWithinYear_def MonthFromTime_def YearFromTime_def)

lemma Day_shift: "Day (t + k * msPerDay) = Day t + k"
  by (simp add: Day_def msPerDay_def)

lemma TimeWithinDay_shift: "TimeWithinDay (t + k * msPerDay) = TimeWithinDay t"
  by (simp add: TimeWithinDay_def msPerDay_def)

lemma MakeDate_shift: "MakeDate (Day t + k) (TimeWithinDay t) = t + k * msPerDay"
  by (simp add: MakeDate_def Day_def TimeWithinDay_def algebra_simps)

lemma setDate_shift: "setDate h (getDate h t + k) t = TimeClip (t + k * msPerDay)"
  by (simp add: setDate_def getDate_def Let_def MakeDay_own_fields MakeDate_shift
      UTC_def LocalTime_def)

lemma setHours0_Date: "setHours0 h (Date t) = TimeClip (localMidnight h t)"
  by (simp add: setHours0_def localMidnight_def)

lemma localMidnight_bounds:
  "localMidnight h t \<le> t" "t < localMidnight h t + msPerDay"
proof -
  define lt where "lt = LocalTime h t"
  have "Day lt * msPerDay \<le> lt" "lt < Day lt * msPerDay + msPerDay"
    using MakeDate_Day [of lt] TimeWithinDay_range [of lt] by (simp_all add: MakeDate_def)
  then show "localMidnight h t \<le> t" "t < localMidnight h t + msPerDay"
    by (simp_all add: localMidnight_def UTC_def MakeDate_def lt_def [symmetric])
       (simp_all add: lt_def LocalTime_def)
qed

lemma localMidnight_shift:
  "localMidnight h (t + k * msPerDay) = localMidnight h t + k * msPerDay"
proof -
  have "LocalTime h (t + k * msPerDay) = LocalTime h t + k * msPerDay"
    by (simp add: LocalTime_def)
  then have "Day (LocalTime h (t + k * msPerDay)) = Day (LocalTime h t) + k"
    by (simp only: Day_shift)
  then show ?thesis
    by (simp add: localMidnight_def UTC_def MakeDate_def algebra_simps)
qed

lemma Day_localMidnight: "Day (LocalTime h (localMidnight h t)) = Day (LocalTime h t)"
  by (simp add: localMidnight_def UTC_def LocalTime_def Day_MakeDate msPerDay_def)

lemma TimeClip_in_range: "\<bar>t\<bar> \<le> 8640000000000000 \<Longrightarrow> TimeClip t = Date t"
  by (simp add: TimeClip_def)

lemma today_in_range:
  assumes "\<bar>now\<bar> \<le> 8640000000000000 - 30 * msPerDay"
  shows "today h now = Date (localMidnight h now)"
proof -
  have "\<bar>localMidnight h now\<bar> \<le> 8640000000000000"
    using assms localMidnight_bounds [where h = h and t = now] by (simp add: msPerDay_def)
  then show ?thesis by (simp add: today_def setHours0_Date TimeClip_in_range)
qed

lemma thirtyDaysFromNow_in_range:
  assumes "\<bar>now\<bar> \<le> 8640000000000000 - 30 * msPerDay"
  shows "thirtyDaysFromNow h now = Date (localMidnight h now + 30 * msPerDay)"
proof -
  have same: "getDate h (localMidnight h now) = getDate h now"
    unfolding getDate_def by (rule fields_depend_on_Day(3)) (rule Day_localMidnight)
  have r1: "\<bar>now + 30 * msPerDay\<bar> \<le> 8640000000000000"
    using assms by (simp add: msPerDay_def)
  have r2: "\<bar>localMidnight h now + 30 * msPerDay\<bar> \<le> 8640000000000000"
    using assms localMidnight_bounds [where h = h and t = now] by (simp add: msPerDay_def)
  have "setDate h (getDate h (localMidnight h now) + 30) now = Date (now + 30 * msPerDay)"
    unfolding same using r1 by (simp add: setDate_shift TimeClip_in_range)
  then show ?thesis
    using r2 localMidnight_shift [of h now 30]
    by (simp add: thirtyDaysFromNow_def today_in_range [OF assms] setHours0_Date
        TimeClip_in_range)
qed

lemma DaysInMonth_bounds:
  assumes "0 \<le> m" "m \<le> 11"
  shows "28 \<le> DaysInMonth y m" "DaysInMonth y m \<le> 31"
proof -
  have "m = 0 \<or> m = 1 \<or> m = 2 \<or> m = 3 \<or> m = 4 \<or> m = 5 \<or> m = 6 \<or> m = 7 \<or> m = 8 \<or> m = 9 \<or> m = 10 \<or> m = 11"
    using assms by arith
  then show "28 \<le> DaysInMonth y m" "DaysInMonth y m \<le> 31"
    using InLeapYear_cases [of y]
    by (auto simp: DaysInMonth_def monthStart_def)
qed

lemma DaysInMonth_December: "DaysInMonth y 11 = 31"
  by (simp add: DaysInMonth_def monthStart_def)

lemma DaysInMonth_February: "DaysInMonth y 1 = 28 + InLeapYear y"
  by (simp add: DaysInMonth_def monthStart_def)

lemma DaysInMonth_other_year:
  assumes "0 \<le> m" "m \<le> 11" "m \<noteq> 1"
  shows "DaysInMonth y m = DaysInMonth z m"
proof -
  have "m = 0 \<or> m = 2 \<or> m = 3 \<or> m = 4 \<or> m = 5 \<or> m = 6 \<or> m = 7 \<or> m = 8 \<or> m = 9 \<or> m = 10 \<or> m = 11"
    using assms by arith
  then show ?thesis
    by (auto simp: DaysInMonth_def monthStart_def)
qed

lemma MakeDay_normal: "0 \<le> m \<Longrightarrow> m \<le> 11 \<Longrightarrow>
  MakeDay y m dt = DayFromYear y + monthStart (InLeapYear y) m + dt - 1"
  by (simp add: MakeDay_def)

lemma MakeDay_month_carry: "MakeDay y m dt = MakeDay (y + m div 12) (m mod 12) dt"
  by (simp add: MakeDay_def)

lemma MakeDay_rollover:
  assumes "0 \<le> m" "m \<le> 10"
  shows "MakeDay y m dt = MakeDay y (m + 1) (dt - DaysInMonth y m)"
  using assms by (simp add: MakeDay_normal DaysInMonth_def)

lemma TimeClip_Date: "TimeClip u = Date t' \<Longrightarrow> u = t'"
  by (simp add: TimeClip_def split: if_splits)

lemma LocalTime_UTC: "LocalTime h (UTC h x) = x" "UTC h (LocalTime h x) = x"
  by (simp_all add: LocalTime_def UTC_def)

lemma calculateExpiryDate_Date:
  assumes "\<not> falsyArg startDate" "newDate h startDate = Date t"
  shows "calculateExpiryDate h startDate period unit =
           Some (if unit = ''days'' then setDate h (getDate h t + period) t
                 else if unit = ''weeks'' then setDate h (getDate h t + period * 7) t
                 else if unit = ''months'' then setMonth h (getMonth h t + period) t
                 else setFullYear h (getFullYear h t + period) t)"
  using assms by (simp add: calculateExpiryDate_def)

section \<open>Facts about the collected expiry dates\<close>

lemma pushProductExpiries_eq:
  "pushProductExpiries h ps acc =
     acc @ concat (map (\<lambda>p. if productWarrantyPeriod p > 0
                              then (case calculateExpiryDate h (DateStr (purchaseDate p))
                                           (productWarrantyPeriod p) (productWarrantyUnit p) of
                                      None \<Rightarrow> [] | Some e \<Rightarrow> [e])
                              else []) ps)"
  by (induction ps arbitrary: acc) (simp_all split: option.splits)

lemma set_pushProductExpiries:
  "set (pushProductExpiries h ps []) =
     {e. \<exists>p \<in> set ps. productWarrantyPeriod p > 0 \<and>
           calculateExpiryDate h (DateStr (purchaseDate p)) (productWarrantyPeriod p)
             (productWarrantyUnit p) = Some e}"
  by (auto simp: pushProductExpiries_eq split: option.splits if_splits)

lemma set_allExpiryDates:
  "set (allExpiryDates h w) =
     {e. \<exists>p \<in> set (products w). productWarrantyPeriod p > 0 \<and>
           calculateExpiryDate h (DateStr (purchaseDate p)) (productWarrantyPeriod p)
             (productWarrantyUnit p) = Some e} \<union>
     {e. servicesInstall w \<and> truthyStr (installDate w) \<and> installationWarrantyPeriod w > 0 \<and>
         calculateExpiryDate h (optArg (installDate w)) (installationWarrantyPeriod w)
           (installationWarrantyUnit w) = Some e}"
  unfolding allExpiryDates_def Let_def
  by (auto simp: set_pushProductExpiries split: option.splits)

lemma foldl_max2_mem: "foldl max2 d rest \<in> set (d # rest)"
proof (induction rest arbitrary: d)
  case Nil
  show ?case by simp
next
  case (Cons x rest)
  have "max2 d x = d \<or> max2 d x = x"
    by (cases d; cases x) (auto simp: max2_def max_def)
  then show ?case using Cons [of "max2 d x"] by auto
qed

lemma foldl_max2_Invalid: "foldl max2 InvalidDate rest = InvalidDate"
  by (induction rest) (simp_all add: max2_def)

lemma foldl_max2_upper:
  "foldl max2 d rest = Date m \<Longrightarrow> \<forall>x \<in> set (d # rest). \<exists>v. x = Date v \<and> v \<le> m"
proof (induction rest arbitrary: d)
  case Nil
  then show ?case by simp
next
  case (Cons y rest)
  show ?case
  proof (cases "max2 d y")
    case InvalidDate
    then show ?thesis using Cons.prems by (simp add: foldl_max2_Invalid)
  next
    case (Date v)
    then obtain a b where ab: "d = Date a" "y = Date b" "v = max a b"
      by (cases d; cases y) (auto simp: max2_def)
    have m: "foldl max2 (Date v) rest = Date m" using Cons.prems Date by simp
    from Cons.IH [OF m] have up: "\<forall>z \<in> set (Date v # rest). \<exists>u. z = Date u \<and> u \<le> m" .
    then have vm: "v \<le> m" by simp
    show ?thesis using ab vm up by auto
  qed
qed

lemma foldl_max2_valid:
  "\<forall>x \<in> set (d # rest). x \<noteq> InvalidDate \<Longrightarrow> foldl max2 d rest \<noteq> InvalidDate"
proof (induction rest arbitrary: d)
  case Nil
  then show ?case by simp
next
  case (Cons y rest)
  then have "max2 d y \<noteq> InvalidDate"
    by (cases d; cases y) (auto simp: max2_def)
  then show ?case using Cons by simp
qed

lemma newDateOfMax_latest:
  assumes "ds \<noteq> []"
  shows "newDateOfMax ds \<in> set ds"
    and "\<forall>d \<in> set ds. \<not> date_lt (newDateOfMax ds) d"
    and "(\<forall>d \<in> set ds. d \<noteq> InvalidDate) \<longrightarrow> (\<forall>d \<in> set ds. date_le d (newDateOfMax ds))"
proof -
  obtain d rest where ds: "ds = d # rest" using assms by (cases ds) auto
  show "newDateOfMax ds \<in> set ds"
    using foldl_max2_mem [of d rest] by (simp add: ds newDateOfMax_def)
  show "\<forall>d \<in> set ds. \<not> date_lt (newDateOfMax ds) d"
  proof
    fix x assume x: "x \<in> set ds"
    show "\<not> date_lt (newDateOfMax ds) x"
    proof (cases "newDateOfMax ds")
      case InvalidDate
      then show ?thesis by (simp add: date_lt_def)
    next
      case (Date m)
      then have "foldl max2 d rest = Date m" by (simp add: ds newDateOfMax_def)
      from foldl_max2_upper [OF this] x ds obtain v where "x = Date v" "v \<le> m" by auto
      then show ?thesis using Date by (simp add: date_lt_def)
    qed
  qed
  show "(\<forall>d \<in> set ds. d \<noteq> InvalidDate) \<longrightarrow> (\<forall>d \<in> set ds. date_le d (newDateOfMax ds))"
  proof (intro impI ballI)
    fix x assume v: "\<forall>d \<in> set ds. d \<noteq> InvalidDate" and x: "x \<in> set ds"
    from v have "foldl max2 d rest \<noteq> InvalidDate" using foldl_max2_valid [of d rest] by (simp add: ds)
    then obtain m where m: "foldl max2 d rest = Date m" by (cases "foldl max2 d rest") auto
    from foldl_max2_upper [OF m] x ds obtain u where "x = Date u" "u \<le> m" by auto
    then show "date_le x (newDateOfMax ds)" using m by (simp add: date_le_def ds newDateOfMax_def)
  qed
qed

lemma sentinel_value: "parseISODate ''9999-12-31'' = Date 253402214400000"
  by code_simp

lemma DayFromYear_9999: "DayFromYear 9999 = 2932532" "DayFromYear 10000 = 2932897"
  by (simp_all add: DayFromYear_def)

lemma sentinel_year:
  assumes "\<bar>LocalTZA h\<bar> < msPerDay"
  shows "getFullYear h 253402214400000 = 9999"
proof -
  define lt where "lt = LocalTime h 253402214400000"
  have "2932895 * msPerDay \<le> lt" "lt < 2932897 * msPerDay"
    using assms by (simp_all add: msPerDay_def lt_def LocalTime_def)
  moreover have "lt = Day lt * msPerDay + TimeWithinDay lt"
    using MakeDate_Day [of lt] by (simp add: MakeDate_def)
  ultimately have "2932895 \<le> Day lt" "Day lt < 2932897"
    using TimeWithinDay_range [of lt] by (simp_all add: msPerDay_def)
  then show ?thesis
    unfolding getFullYear_def YearFromTime_def lt_def [symmetric]
    by (intro YearFromDay_unique) (simp_all add: DayFromYear_9999)
qed

section \<open>Properties of the WhatsApp number\<close>

text \<open>
  Claim C4, as the code has it. For every non-empty phone string the function strips
  all non-digit characters; if the digits start with the trunk prefix \<^verbatim>\<open>0\<close>, it puts the
  country-code digit \<^verbatim>\<open>6\<close> in front of them (the \<^verbatim>\<open>0\<close> stays, which gives the
  \<^verbatim>\<open>60\<close>-prefixed form); otherwise, if they do not start with \<^verbatim>\<open>60\<close>, it prepends
  \<^verbatim>\<open>60\<close>. The result always starts with \<^verbatim>\<open>60\<close>. The empty string is excluded: the
  guard \<^verbatim>\<open>if (!phone) return ''\<close> answers it before any normalization.
\<close>

theorem formatPhoneNumberForWhatsApp_nonempty:
  assumes "phone \<noteq> []"
  shows "formatPhoneNumberForWhatsApp phone =
           (let cleaned = filter isDigit phone
            in if startsWith cleaned ''0'' then ''6'' @ cleaned
               else if startsWith cleaned ''60'' then cleaned
               else ''60'' @ cleaned)
         \<and> startsWith (formatPhoneNumberForWhatsApp phone) ''60''"
proof -
  define cleaned where "cleaned = filter isDigit phone"
  have a: "startsWith cleaned ''0'' \<Longrightarrow> startsWith (''6'' @ cleaned) ''60''"
    by (cases cleaned) (simp_all add: startsWith_def)
  have b: "startsWith (''60'' @ cleaned) ''60''"
    by (simp add: startsWith_def)
  show ?thesis
    using assms a b
    by (simp add: formatPhoneNumberForWhatsApp_def Let_def cleaned_def [symmetric])
qed

text \<open>The three examples of the specification, each through the theorem.\<close>

theorem formatPhoneNumberForWhatsApp_examples:
  "formatPhoneNumberForWhatsApp ''012-3456789'' = ''60123456789'' \<and>
   formatPhoneNumberForWhatsApp ''60123456789'' = ''60123456789'' \<and>
   formatPhoneNumberForWhatsApp ''123456789'' = ''60123456789''"
  using formatPhoneNumberForWhatsApp_nonempty [of "''012-3456789''"]
        formatPhoneNumberForWhatsApp_nonempty [of "''60123456789''"]
        formatPhoneNumberForWhatsApp_nonempty [of "''123456789''"]
  by (simp add: isDigit_def startsWith_def)

text \<open>
  Claim C4 as stated fails on the empty string: stripping leaves no digits, which do
  not start with \<^verbatim>\<open>60\<close>, so the claim prepends \<^verbatim>\<open>60\<close>; the code returns the empty
  string.
\<close>

theorem formatPhoneNumberForWhatsApp_empty_counterexample:
  "filter isDigit [] = [] \<and>
   \<not> startsWith (filter isDigit []) ''60'' \<and>
   formatPhoneNumberForWhatsApp [] = [] \<and>
   formatPhoneNumberForWhatsApp [] \<noteq> ''60'' @ filter isDigit []"
  by (simp add: formatPhoneNumberForWhatsApp_def startsWith_def)

text \<open>
  Claim C9. The empty string is returned as the empty string, with no \<^verbatim>\<open>60\<close> in
  front, whereas every non-empty input without any digit gives exactly \<^verbatim>\<open>60\<close>.
\<close>

theorem formatPhoneNumberForWhatsApp_empty_vs_no_digits:
  assumes "phone \<noteq> []" and "\<forall>c \<in> set phone. \<not> isDigit c"
  shows "formatPhoneNumberForWhatsApp [] = [] \<and>
         \<not> startsWith (formatPhoneNumberForWhatsApp []) ''60'' \<and>
         formatPhoneNumberForWhatsApp phone = ''60''"
proof -
  have "filter isDigit phone = []"
    using assms(2) by (simp add: filter_empty_conv)
  then have "formatPhoneNumberForWhatsApp phone = ''60''"
    using assms(1) by (simp add: formatPhoneNumberForWhatsApp_def startsWith_def)
  moreover have "formatPhoneNumberForWhatsApp [] = []"
    by (simp add: formatPhoneNumberForWhatsApp_def)
  ultimately show ?thesis by (simp add: startsWith_def)
qed

theorem formatPhoneNumberForWhatsApp_abc:
  "formatPhoneNumberForWhatsApp ''abc'' = ''60'' \<and> formatPhoneNumberForWhatsApp [] = []"
  using formatPhoneNumberForWhatsApp_empty_vs_no_digits [of "''abc''"]
  by (simp add: isDigit_def)

section \<open>Properties of the migration\<close>

lemma migrateWarranty_settled:
  "\<not> hasLegacyProductFields (migrateWarranty w) \<and> w_servicesProvided (migrateWarranty w) \<noteq> None"
  by (auto simp: migrateWarranty_def hasLegacyProductFields_def truthyStr_def Let_def)

lemma migrate_settled: "\<not> needsMigration (migrate ws)"
proof (cases "needsMigration ws")
  case True
  then show ?thesis
    using migrateWarranty_settled
    by (auto simp: migrate_def needsMigration_def list_ex_iff)
next
  case False
  then show ?thesis by (simp add: migrate_def)
qed

text \<open>
  Claim C5. The migration is idempotent: for every stored record set, running it twice
  gives the record set that running it once gives. After one run no record has a
  non-empty top-level \<^verbatim>\<open>productName\<close> or \<^verbatim>\<open>purchaseDate\<close>, and every record has a
  \<^verbatim>\<open>servicesProvided\<close>, so neither trigger holds on the second run.
\<close>

theorem migrate_idempotent:
  "migrate (migrate ws) = migrate ws \<and>
   (\<forall>w \<in> set (migrate ws). \<not> hasLegacyProductFields w \<and> w_servicesProvided w \<noteq> None)"
proof
  show "migrate (migrate ws) = migrate ws"
    using migrate_settled [of ws] by (simp add: migrate_def [of "migrate ws"])
  show "\<forall>w \<in> set (migrate ws). \<not> hasLegacyProductFields w \<and> w_servicesProvided w \<noteq> None"
    using migrate_settled [of ws] by (auto simp: needsMigration_def list_ex_iff)
qed

theorem migrate_idempotent_legacyFan:
  "migrate (migrate [legacyFan]) = migrate [legacyFan] \<and>
   migrate [legacyFan] \<noteq> [legacyFan] \<and>
   w_servicesProvided (hd (migrate [legacyFan])) = Some \<lparr>supply = True, install = False\<rparr>"
  using migrate_idempotent [of "[legacyFan]"]
  by (simp add: migrate_def needsMigration_def migrateWarranty_def hasLegacyProductFields_def
      truthyStr_def truthyNum_def positiveNum_def legacyFan_def)

text \<open>
  The body of the effect, taken on its own, does what claim C6 describes. A legacy
  record with a non-empty top-level \<^verbatim>\<open>productName\<close> or \<^verbatim>\<open>purchaseDate\<close> and no products
  (no \<^verbatim>\<open>products\<close> field, or an empty one) gets a \<^verbatim>\<open>products\<close> array of one element,
  built from the top-level fields: name and serial number default to the empty string,
  the purchase date is taken as it is, the period defaults to 0 and the unit to
  \<^verbatim>\<open>months\<close>. The five top-level product fields are then gone from the record.
\<close>

lemma migrateWarranty_body_synthesizes_product:
  assumes "hasLegacyProductFields w"
      and "w_products w = None \<or> w_products w = Some []"
  shows "w_products (migrateWarranty w) =
           Some [\<lparr>p_productName = Some (case w_productName w of None \<Rightarrow> [] | Some s \<Rightarrow> s),
                  p_serialNumber = Some (case w_serialNumber w of None \<Rightarrow> [] | Some s \<Rightarrow> s),
                  p_purchaseDate = w_purchaseDate w,
                  p_productWarrantyPeriod =
                    Some (case w_productWarrantyPeriod w of None \<Rightarrow> 0 | Some n \<Rightarrow> n),
                  p_productWarrantyUnit =
                    Some (if truthyStr (w_productWarrantyUnit w)
                          then the (w_productWarrantyUnit w) else ''months'')\<rparr>]
         \<and> w_productName (migrateWarranty w) = None
         \<and> w_serialNumber (migrateWarranty w) = None
         \<and> w_purchaseDate (migrateWarranty w) = None
         \<and> w_productWarrantyPeriod (migrateWarranty w) = None
         \<and> w_productWarrantyUnit (migrateWarranty w) = None
         \<and> migrate (pre @ w # post) =
             map migrateWarranty pre @ migrateWarranty w # map migrateWarranty post"
proof -
  have run: "migrate (pre @ w # post) =
               map migrateWarranty pre @ migrateWarranty w # map migrateWarranty post"
    using assms(1) by (simp add: migrate_def needsMigration_def)
  have products: "migratedProducts w = [legacyProduct w]"
    using assms(2) by (auto simp: migratedProducts_def)
  have name: "orStr (w_productName w) (Some []) =
                Some (case w_productName w of None \<Rightarrow> [] | Some s \<Rightarrow> s)"
    by (cases "w_productName w") (simp_all add: orStr_def truthyStr_def)
  have serial: "orStr (w_serialNumber w) (Some []) =
                  Some (case w_serialNumber w of None \<Rightarrow> [] | Some s \<Rightarrow> s)"
    by (cases "w_serialNumber w") (simp_all add: orStr_def truthyStr_def)
  have period: "nullish (w_productWarrantyPeriod w) (Some 0) =
                  Some (case w_productWarrantyPeriod w of None \<Rightarrow> 0 | Some n \<Rightarrow> n)"
    by (cases "w_productWarrantyPeriod w") (simp_all add: nullish_def)
  have unit: "orStr (w_productWarrantyUnit w) (Some ''months'') =
                Some (if truthyStr (w_productWarrantyUnit w)
                      then the (w_productWarrantyUnit w) else ''months'')"
    by (cases "w_productWarrantyUnit w") (simp_all add: orStr_def truthyStr_def)
  show ?thesis
    using assms(1) products name serial period unit run
    by (simp add: migrateWarranty_def Let_def legacyProduct_def)
qed

text \<open>
  The application never reaches that body on a record without a \<^verbatim>\<open>products\<close> array: the
  render throws first, whatever else the stored set holds.
\<close>

lemma allProductNames_throws:
  "w \<in> set ws \<Longrightarrow> w_products w = None \<Longrightarrow> allProductNames ws = Inl TypeError"
  by (induction ws) (auto split: option.splits sum.splits)

lemma appFirstLoad_throws:
  "w \<in> set ws \<Longrightarrow> w_products w = None \<Longrightarrow> appFirstLoad ws = Inl TypeError"
  by (simp add: appFirstLoad_def allProductNames_throws)

text \<open>
  Claim C6 fails on the code, at the example of the specification. The stored record
  \<^verbatim>\<open>{productName:"Fan", purchaseDate:"2023-06-01", productWarrantyPeriod:2,
  productWarrantyUnit:"years"}\<close> has top-level product fields and no \<^verbatim>\<open>products\<close> array;
  the claim has it migrated to a record with the one product Fan. On the first load the
  render throws a TypeError in \<^verbatim>\<open>productList\<close>, the effect does not run, and the record
  stays as it was stored. The same record with an empty \<^verbatim>\<open>products\<close> array passes the
  render and is migrated as the claim says: the effect is written for the case
  (its comment reads "If there's no products array, create it from legacy fields"),
  and the render before it misses the guard.
\<close>

theorem appFirstLoad_legacyFan:
  "hasLegacyProductFields legacyFan \<and>
   w_products legacyFan = None \<and>
   allProductNames [legacyFan] = Inl TypeError \<and>
   appFirstLoad [legacyFan] = Inl TypeError \<and>
   appFirstLoad [legacyFanEmptyProducts] =
     Inr [\<lparr>w_productName = None, w_serialNumber = None, w_purchaseDate = None,
           w_productWarrantyPeriod = None, w_productWarrantyUnit = None,
           w_products =
             Some [\<lparr>p_productName = Some ''Fan'', p_serialNumber = Some [],
                    p_purchaseDate = Some ''2023-06-01'', p_productWarrantyPeriod = Some 2,
                    p_productWarrantyUnit = Some ''years''\<rparr>],
           w_servicesProvided = Some \<lparr>supply = True, install = False\<rparr>,
           w_installDate = None, w_installationWarrantyPeriod = None\<rparr>]"
  by (simp add: appFirstLoad_def legacyFan_def legacyFanEmptyProducts_def migrate_def
      needsMigration_def migrateWarranty_def migratedProducts_def legacyProduct_def
      hasLegacyProductFields_def truthyStr_def truthyNum_def positiveNum_def orStr_def
      nullish_def)

section \<open>Properties of the status classifier\<close>

text \<open>
  Claim C10. The colour token of the result is determined by its status: Expired comes
  with \<^verbatim>\<open>bg-brand-danger\<close>, ExpiringSoon with \<^verbatim>\<open>bg-brand-warning\<close> and Active with
  \<^verbatim>\<open>bg-brand-success\<close>, on every warranty, at every time and on every host, the case
  of no collected expiry included.
\<close>

theorem getWarrantyStatusInfo_color_of_status:
  "color (getWarrantyStatusInfo h now w) =
     (case status (getWarrantyStatusInfo h now w) of
        Expired \<Rightarrow> ''bg-brand-danger''
      | ExpiringSoon \<Rightarrow> ''bg-brand-warning''
      | Active \<Rightarrow> ''bg-brand-success'')"
  by (simp add: getWarrantyStatusInfo_def)

text \<open>
  Claim C2. The classifier collects an expiry from exactly the products with a positive
  period whose expiry is computable (a product with period 0 contributes none), and
  the expiry of the installation when \<^verbatim>\<open>servicesProvided.install\<close> is true, the install
  date is set and the installation period is positive. If nothing is collected the
  status is Active and the expiry is the sentinel \<^verbatim>\<open>new Date('9999-12-31')\<close>, a date in
  the year 9999 (on a host that reads this string as the standard prescribes and whose
  local time is less than a day away from UTC). Otherwise the reference, before it is
  normalized to midnight, is the latest of the collected dates: it is one of them, and
  none of them is later. When all collected dates are valid, each of them is at most
  the reference; an Invalid Date among them (an expiry outside the range of Date) makes
  the reference invalid.
\<close>

theorem getWarrantyStatusInfo_collects:
  assumes iso: "DateParse h ''9999-12-31'' = parseISODate ''9999-12-31''"
      and zone: "\<bar>LocalTZA h\<bar> < msPerDay"
  shows "set (allExpiryDates h w) =
           {e. \<exists>p \<in> set (products w). productWarrantyPeriod p > 0 \<and>
                 calculateExpiryDate h (DateStr (purchaseDate p)) (productWarrantyPeriod p)
                   (productWarrantyUnit p) = Some e} \<union>
           {e. servicesInstall w \<and> truthyStr (installDate w) \<and>
               installationWarrantyPeriod w > 0 \<and>
               calculateExpiryDate h (optArg (installDate w)) (installationWarrantyPeriod w)
                 (installationWarrantyUnit w) = Some e} \<and>
         (allExpiryDates h w = [] \<longrightarrow>
            status (getWarrantyStatusInfo h now w) = Active \<and>
            expiryDate (getWarrantyStatusInfo h now w) = Date 253402214400000 \<and>
            getFullYear h 253402214400000 = 9999) \<and>
         (allExpiryDates h w \<noteq> [] \<longrightarrow>
            expiryDate (getWarrantyStatusInfo h now w) =
              setHours0 h (newDateOfMax (allExpiryDates h w)) \<and>
            newDateOfMax (allExpiryDates h w) \<in> set (allExpiryDates h w) \<and>
            (\<forall>d \<in> set (allExpiryDates h w). \<not> date_lt (newDateOfMax (allExpiryDates h w)) d) \<and>
            ((\<forall>d \<in> set (allExpiryDates h w). d \<noteq> InvalidDate) \<longrightarrow>
               (\<forall>d \<in> set (allExpiryDates h w). date_le d (newDateOfMax (allExpiryDates h w)))))"
proof (intro conjI impI)
  show "set (allExpiryDates h w) =
           {e. \<exists>p \<in> set (products w). productWarrantyPeriod p > 0 \<and>
                 calculateExpiryDate h (DateStr (purchaseDate p)) (productWarrantyPeriod p)
                   (productWarrantyUnit p) = Some e} \<union>
           {e. servicesInstall w \<and> truthyStr (installDate w) \<and>
               installationWarrantyPeriod w > 0 \<and>
               calculateExpiryDate h (optArg (installDate w)) (installationWarrantyPeriod w)
                 (installationWarrantyUnit w) = Some e}"
    by (rule set_allExpiryDates)
next
  assume "allExpiryDates h w = []"
  then show "status (getWarrantyStatusInfo h now w) = Active"
    by (simp add: getWarrantyStatusInfo_def)
next
  assume "allExpiryDates h w = []"
  then show "expiryDate (getWarrantyStatusInfo h now w) = Date 253402214400000"
    by (simp add: getWarrantyStatusInfo_def newDate_def iso sentinel_value)
next
  show "getFullYear h 253402214400000 = 9999"
    by (rule sentinel_year [OF zone])
next
  assume "allExpiryDates h w \<noteq> []"
  then show "expiryDate (getWarrantyStatusInfo h now w) =
              setHours0 h (newDateOfMax (allExpiryDates h w))"
    by (simp add: getWarrantyStatusInfo_def latestExpiryDate_def)
next
  assume "allExpiryDates h w \<noteq> []"
  then show "newDateOfMax (allExpiryDates h w) \<in> set (allExpiryDates h w)"
    by (rule newDateOfMax_latest(1))
next
  assume "allExpiryDates h w \<noteq> []"
  then show "\<forall>d \<in> set (allExpiryDates h w). \<not> date_lt (newDateOfMax (allExpiryDates h w)) d"
    by (rule newDateOfMax_latest(2))
next
  assume "allExpiryDates h w \<noteq> []" "\<forall>d \<in> set (allExpiryDates h w). d \<noteq> InvalidDate"
  then show "\<forall>d \<in> set (allExpiryDates h w). date_le d (newDateOfMax (allExpiryDates h w))"
    using newDateOfMax_latest(3) by blast
qed

text \<open>The empty and the non-empty case on the example warranties, in Malaysia.\<close>

theorem getWarrantyStatusInfo_collects_examples:
  "allExpiryDates hostMY zeroPeriodWarranty = [] \<and>
   status (getWarrantyStatusInfo hostMY 1705300000000 zeroPeriodWarranty) = Active \<and>
   expiryDate (getWarrantyStatusInfo hostMY 1705300000000 zeroPeriodWarranty) =
     Date 253402214400000 \<and>
   getFullYear hostMY 253402214400000 = 9999 \<and>
   allExpiryDates hostMY fanWarranty = [Date 1707868800000] \<and>
   expiryDate (getWarrantyStatusInfo hostMY 1705300000000 fanWarranty) = Date 1707840000000"
proof -
  have iso: "DateParse hostMY ''9999-12-31'' = parseISODate ''9999-12-31''"
    by (simp add: hostMY_def)
  have zone: "\<bar>LocalTZA hostMY\<bar> < msPerDay"
    by (simp add: hostMY_def msPerDay_def)
  have e: "allExpiryDates hostMY zeroPeriodWarranty = []" by code_simp
  have f: "allExpiryDates hostMY fanWarranty = [Date 1707868800000]" by code_simp
  have g: "setHours0 hostMY (newDateOfMax [Date 1707868800000]) = Date 1707840000000"
    by code_simp
  show ?thesis
    using getWarrantyStatusInfo_collects [OF iso zone, of zeroPeriodWarranty 1705300000000]
          getWarrantyStatusInfo_collects [OF iso zone, of fanWarranty 1705300000000] e f g
    by simp
qed

text \<open>
  Claim C1. When the collected set is not empty and the reference, normalized to local
  midnight, is the time value \<open>r\<close>, the status is Expired if \<open>r\<close> is before today's
  midnight, ExpiringSoon if it is from today's midnight to 30 days after it, both ends
  included, and Active if it is later. In particular today + 30 days is ExpiringSoon,
  today + 31 days is Active and today - 1 day is Expired. The clock is assumed to
  read a time at least 30 days inside the range of Date, which ends in the year 275760.
\<close>

theorem getWarrantyStatusInfo_classifies:
  assumes collected: "allExpiryDates h w \<noteq> []"
      and reference: "latestExpiryDate h w = Date r"
      and clock: "\<bar>now\<bar> \<le> 8640000000000000 - 30 * msPerDay"
  shows "today h now = Date (localMidnight h now) \<and>
         status (getWarrantyStatusInfo h now w) =
           (if r < localMidnight h now then Expired
            else if r \<le> localMidnight h now + 30 * msPerDay then ExpiringSoon
            else Active) \<and>
         (r = localMidnight h now + 30 * msPerDay \<longrightarrow>
            status (getWarrantyStatusInfo h now w) = ExpiringSoon) \<and>
         (r = localMidnight h now + 31 * msPerDay \<longrightarrow>
            status (getWarrantyStatusInfo h now w) = Active) \<and>
         (r = localMidnight h now - 1 * msPerDay \<longrightarrow>
            status (getWarrantyStatusInfo h now w) = Expired)"
proof -
  have t: "today h now = Date (localMidnight h now)"
    by (rule today_in_range [OF clock])
  have s: "status (getWarrantyStatusInfo h now w) =
           (if r < localMidnight h now then Expired
            else if r \<le> localMidnight h now + 30 * msPerDay then ExpiringSoon
            else Active)"
    using collected
    by (simp add: getWarrantyStatusInfo_def reference t
        thirtyDaysFromNow_in_range [OF clock] date_lt_def date_le_def)
  have b30: "r = localMidnight h now + 30 * msPerDay \<longrightarrow>
           status (getWarrantyStatusInfo h now w) = ExpiringSoon"
    unfolding s by (simp add: msPerDay_def)
  have b31: "r = localMidnight h now + 31 * msPerDay \<longrightarrow>
           status (getWarrantyStatusInfo h now w) = Active"
    unfolding s by (simp add: msPerDay_def)
  have b1: "r = localMidnight h now - 1 * msPerDay \<longrightarrow>
           status (getWarrantyStatusInfo h now w) = Expired"
    unfolding s by (simp add: msPerDay_def)
  show ?thesis using t s b30 b31 b1 by blast
qed

text \<open>
  The three boundary cases on the example warranty, whose only expiry is 14 February
  2024: seen on 15 January, on 14 January and on 15 February 2024.
\<close>

theorem getWarrantyStatusInfo_classifies_fanWarranty:
  "latestExpiryDate hostMY fanWarranty = Date 1707840000000 \<and>
   localMidnight hostMY 1705300000000 + 30 * msPerDay = 1707840000000 \<and>
   status (getWarrantyStatusInfo hostMY 1705300000000 fanWarranty) = ExpiringSoon \<and>
   localMidnight hostMY 1705213600000 + 31 * msPerDay = 1707840000000 \<and>
   status (getWarrantyStatusInfo hostMY 1705213600000 fanWarranty) = Active \<and>
   localMidnight hostMY 1707978400000 - 1 * msPerDay = 1707840000000 \<and>
   status (getWarrantyStatusInfo hostMY 1707978400000 fanWarranty) = Expired"
proof -
  have c: "allExpiryDates hostMY fanWarranty \<noteq> []" by code_simp
  have r: "latestExpiryDate hostMY fanWarranty = Date 1707840000000" by code_simp
  have n1: "\<bar>1705300000000\<bar> \<le> 8640000000000000 - 30 * msPerDay" by (simp add: msPerDay_def)
  have n2: "\<bar>1705213600000\<bar> \<le> 8640000000000000 - 30 * msPerDay" by (simp add: msPerDay_def)
  have n3: "\<bar>1707978400000\<bar> \<le> 8640000000000000 - 30 * msPerDay" by (simp add: msPerDay_def)
  have m1: "localMidnight hostMY 1705300000000 + 30 * msPerDay = 1707840000000" by code_simp
  have m2: "localMidnight hostMY 1705213600000 + 31 * msPerDay = 1707840000000" by code_simp
  have m3: "localMidnight hostMY 1707978400000 - 1 * msPerDay = 1707840000000" by code_simp
  have s1: "status (getWarrantyStatusInfo hostMY 1705300000000 fanWarranty) = ExpiringSoon"
    using getWarrantyStatusInfo_classifies [OF c r n1] m1 [symmetric] by blast
  have s2: "status (getWarrantyStatusInfo hostMY 1705213600000 fanWarranty) = Active"
    using getWarrantyStatusInfo_classifies [OF c r n2] m2 [symmetric] by blast
  have s3: "status (getWarrantyStatusInfo hostMY 1707978400000 fanWarranty) = Expired"
    using getWarrantyStatusInfo_classifies [OF c r n3] m3 [symmetric] by blast
  show ?thesis
    using r m1 m2 m3 s1 s2 s3 by blast
qed

section \<open>Properties of the message composer\<close>

text \<open>
  Claim C7. When no product has both a positive warranty period and an expiry of today
  or later, and the installation is not both flagged by \<^verbatim>\<open>servicesProvided.install\<close> and
  unexpired, \<^verbatim>\<open>generateShareMessage\<close> in reminder mode returns the generic reminder: a
  fixed text after the greeting of the customer, which is never empty and lists no
  item.
\<close>

theorem generateShareMessage_fallback:
  assumes noProduct:
        "\<forall>p \<in> set (products w). productWarrantyPeriod p > 0 \<longrightarrow>
           (\<forall>e. calculateExpiryDate h (DateStr (purchaseDate p)) (productWarrantyPeriod p)
                  (productWarrantyUnit p) = Some e \<longrightarrow> \<not> date_ge e (today h now))"
      and noInstallation:
        "servicesInstall w \<longrightarrow> truthyStr (installDate w) \<longrightarrow> installationWarrantyPeriod w > 0 \<longrightarrow>
           (\<forall>e. calculateExpiryDate h (optArg (installDate w)) (installationWarrantyPeriod w)
                  (installationWarrantyUnit w) = Some e \<longrightarrow> \<not> date_ge e (today h now))"
  shows "generateShareMessage h now w True =
           ''Hi '' @ customerName w @
           '',\<newline>\<newline>This is a friendly reminder regarding your warranties. Please review your records for items that may be expiring soon.\<newline>\<newline>Thank you!''
         \<and> generateShareMessage h now w True \<noteq> []"
proof -
  have "\<not> isUnexpiredProduct h now p" if "p \<in> set (products w)" for p
    using noProduct that
    by (auto simp: isUnexpiredProduct_def unexpired_def productExpiry_def split: option.splits)
  then have none: "filter (isUnexpiredProduct h now) (products w) = []"
    by (simp add: filter_empty_conv)
  have inst: "\<not> (servicesInstall w \<and> unexpired h now (installationExpiryReminder h w))"
    using noInstallation
    by (auto simp: unexpired_def installationExpiryReminder_def split: option.splits if_splits)
  from inst have inst': "(servicesInstall w \<and> unexpired h now (installationExpiryReminder h w)) = False"
    by simp
  have "generateShareMessage h now w True = fallbackReminder w"
    unfolding generateShareMessage_def Let_def none inst' by simp
  then show ?thesis by (simp add: fallbackReminder_def)
qed

text \<open>
  The example of the specification: one expired product and no installation. The
  product of the example warranty expired on 14 February 2024; the reminder is composed
  on 15 February.
\<close>

theorem generateShareMessage_fallback_fanWarranty:
  "generateShareMessage hostMY 1707978400000 fanWarranty True =
     ''Hi Ali,\<newline>\<newline>This is a friendly reminder regarding your warranties. Please review your records for items that may be expiring soon.\<newline>\<newline>Thank you!''"
proof -
  have t: "today hostMY 1707978400000 = Date 1707926400000" by code_simp
  have e: "calculateExpiryDate hostMY (DateStr ''2024-01-14'') 31 ''days'' = Some (Date 1707868800000)"
    by code_simp
  have p: "\<forall>p \<in> set (products fanWarranty). productWarrantyPeriod p > 0 \<longrightarrow>
           (\<forall>e. calculateExpiryDate hostMY (DateStr (purchaseDate p)) (productWarrantyPeriod p)
                  (productWarrantyUnit p) = Some e \<longrightarrow> \<not> date_ge e (today hostMY 1707978400000))"
    by (simp add: fanWarranty_def e t date_ge_def date_le_def)
  have i: "servicesInstall fanWarranty \<longrightarrow> truthyStr (installDate fanWarranty) \<longrightarrow>
           installationWarrantyPeriod fanWarranty > 0 \<longrightarrow>
           (\<forall>e. calculateExpiryDate hostMY (optArg (installDate fanWarranty))
                  (installationWarrantyPeriod fanWarranty)
                  (installationWarrantyUnit fanWarranty) = Some e \<longrightarrow>
                \<not> date_ge e (today hostMY 1707978400000))"
    by (simp add: fanWarranty_def servicesInstall_def)
  show ?thesis
    using generateShareMessage_fallback [OF p i] by (simp add: fanWarranty_def)
qed

section \<open>Properties of the expiry calculator\<close>

text \<open>
  Claim C3 as stated fails: with unit \<^verbatim>\<open>months\<close> the code calls \<^verbatim>\<open>setMonth\<close>, which keeps
  the day of the month and lets it roll over. 31 January 2023 plus one month is not
  the last day of February 2023, the 28th: it is 3 March 2023.
\<close>

theorem calculateExpiryDate_months_counterexample:
  "newDate hostMY (DateStr ''2023-01-31'') = Date 1675123200000 \<and>
   getFullYear hostMY 1675123200000 = 2023 \<and>
   getMonth hostMY 1675123200000 = 0 \<and>
   getDate hostMY 1675123200000 = 31 \<and>
   DaysInMonth 2023 1 = 28 \<and>
   calculateExpiryDate hostMY (DateStr ''2023-01-31'') 1 ''months'' = Some (Date 1677801600000) \<and>
   getMonth hostMY 1677801600000 = 2 \<and>
   getDate hostMY 1677801600000 = 3"
  by code_simp

text \<open>
  Claim C3, as the code has it. For every parseable start date whose local day of the
  month \<open>d\<close> does not exist in the month reached by adding the period, because that
  month has only \<open>n < d\<close> days, a result that is a valid Date lies in the month after
  the month reached, on its day \<open>d - n\<close>.
\<close>

theorem calculateExpiryDate_months_rollover:
  assumes start: "\<not> falsyArg startDate" "newDate h startDate = Date t"
      and expiry: "calculateExpiryDate h startDate period ''months'' = Some (Date t')"
      and missing: "DaysInMonth (targetYear h t period) (targetMonth h t period) < getDate h t"
  shows "getFullYear h t' = targetYear h t period \<and>
         getMonth h t' = targetMonth h t period + 1 \<and>
         getDate h t' = getDate h t - DaysInMonth (targetYear h t period) (targetMonth h t period)"
proof -
  define lt where "lt = LocalTime h t"
  define ty where "ty = targetYear h t period"
  define tm where "tm = targetMonth h t period"
  define D where "D = DateFromTime lt"
  have tm_range: "0 \<le> tm" "tm \<le> 11"
    by (simp_all add: tm_def targetMonth_def)
  have D_range: "1 \<le> D" "D \<le> 31"
    using DateFromTime_range [of lt] DaysInMonth_bounds(2) [OF MonthFromTime_range, of "YearFromTime lt" lt]
    by (simp_all add: D_def)
  have miss: "DaysInMonth ty tm < D"
    using missing by (simp add: ty_def tm_def D_def lt_def getDate_def)
  have "tm \<noteq> 11"
    using miss D_range(2) DaysInMonth_December [of ty] by auto
  then have tm10: "tm \<le> 10" using tm_range(2) by simp
  have "setMonth h (getMonth h t + period) t = Date t'"
    using expiry calculateExpiryDate_Date [OF start, of period "''months''"] by simp
  then have "UTC h (MakeDate (MakeDay (YearFromTime lt) (MonthFromTime lt + period) D)
                      (TimeWithinDay lt)) = t'"
    by (intro TimeClip_Date)
       (simp add: setMonth_def Let_def lt_def [symmetric] D_def getMonth_def)
  then have lt': "LocalTime h t' =
      MakeDate (MakeDay (YearFromTime lt) (MonthFromTime lt + period) D) (TimeWithinDay lt)"
    using LocalTime_UTC(1) by metis
  have "MakeDay (YearFromTime lt) (MonthFromTime lt + period) D = MakeDay ty tm D"
    using MakeDay_month_carry [of "YearFromTime lt" "MonthFromTime lt + period" D]
    by (simp add: ty_def tm_def targetYear_def targetMonth_def getFullYear_def getMonth_def lt_def)
  also have "\<dots> = MakeDay ty (tm + 1) (D - DaysInMonth ty tm)"
    by (rule MakeDay_rollover [OF tm_range(1) tm10])
  finally have day: "Day (LocalTime h t') = MakeDay ty (tm + 1) (D - DaysInMonth ty tm)"
    using lt' TimeWithinDay_range [of lt] by (simp add: Day_MakeDate)
  have m1: "0 \<le> tm + 1" "tm + 1 \<le> 11" using tm_range(1) tm10 by simp_all
  have d1: "1 \<le> D - DaysInMonth ty tm" using miss by simp
  have d2: "D - DaysInMonth ty tm \<le> DaysInMonth ty (tm + 1)"
    using D_range(2) DaysInMonth_bounds(1) [OF tm_range, of ty] DaysInMonth_bounds(1) [OF m1, of ty]
    by simp
  from fields_of_MakeDay [OF m1 d1 d2 day]
  show ?thesis
    by (simp add: getFullYear_def getMonth_def getDate_def ty_def tm_def D_def lt_def)
qed

text \<open>31 March 2024 plus one month: April has 30 days, the result is 1 May 2024.\<close>

theorem calculateExpiryDate_months_rollover_example:
  "newDate hostMY (DateStr ''2024-03-31'') = Date 1711843200000 \<and>
   getDate hostMY 1711843200000 = 31 \<and>
   targetYear hostMY 1711843200000 1 = 2024 \<and>
   targetMonth hostMY 1711843200000 1 = 3 \<and>
   DaysInMonth 2024 3 = 30 \<and>
   calculateExpiryDate hostMY (DateStr ''2024-03-31'') 1 ''months'' = Some (Date 1714521600000) \<and>
   getFullYear hostMY 1714521600000 = 2024 \<and>
   getMonth hostMY 1714521600000 = 4 \<and>
   getDate hostMY 1714521600000 = 1"
proof -
  have s1: "\<not> falsyArg (DateStr ''2024-03-31'')" by (simp add: falsyArg_def)
  have s2: "newDate hostMY (DateStr ''2024-03-31'') = Date 1711843200000" by code_simp
  have e: "calculateExpiryDate hostMY (DateStr ''2024-03-31'') 1 ''months'' =
             Some (Date 1714521600000)" by code_simp
  have d: "getDate hostMY 1711843200000 = 31" by code_simp
  have ty: "targetYear hostMY 1711843200000 1 = 2024" by code_simp
  have tm: "targetMonth hostMY 1711843200000 1 = 3" by code_simp
  have n: "DaysInMonth 2024 3 = 30" by code_simp
  have m: "DaysInMonth (targetYear hostMY 1711843200000 1) (targetMonth hostMY 1711843200000 1)
             < getDate hostMY 1711843200000"
    by (simp add: d ty tm n)
  show ?thesis
    using calculateExpiryDate_months_rollover [OF s1 s2 e m] s2 e d ty tm n by simp
qed

text \<open>
  Claim C8 as stated fails for years. The inverse operation subtracts the period: it is
  \<^verbatim>\<open>calculateExpiryDate\<close> with the negated period. 29 February 2024 plus one year is
  1 March 2025, and one year back from there is 1 March 2024.
\<close>

theorem calculateExpiryDate_inverse_counterexample:
  "newDate hostMY (DateStr ''2024-02-29'') = Date 1709164800000 \<and>
   calculateExpiryDate hostMY (DateStr ''2024-02-29'') 1 ''years'' = Some (Date 1740787200000) \<and>
   calculateExpiryDate hostMY (DateObj (Date 1740787200000)) (- 1) ''years'' =
     Some (Date 1709251200000) \<and>
   calculateExpiryDate hostMY (DateObj (Date 1740787200000)) (- 1) ''years'' \<noteq>
     Some (Date 1709164800000)"
  by code_simp

text \<open>
  Claim C8, as the code has it. For every parseable start date, every integer period
  and the units \<^verbatim>\<open>days\<close> and \<^verbatim>\<open>weeks\<close>, and for the unit \<^verbatim>\<open>years\<close> unless the start is a
  local 29 February and the year reached is not a leap year: when the expiry is a valid
  Date, subtracting the same period of the same unit from it gives the start date
  back. The time value of the start is within the range of Date, as that of every
  valid Date is.
\<close>

theorem calculateExpiryDate_inverse:
  assumes start: "\<not> falsyArg startDate" "newDate h startDate = Date t"
      and range: "\<bar>t\<bar> \<le> 8640000000000000"
      and expiry: "calculateExpiryDate h startDate period unit = Some (Date t')"
      and unit: "unit = ''days'' \<or> unit = ''weeks'' \<or>
                 (unit = ''years'' \<and>
                  (getMonth h t = 1 \<and> getDate h t = 29 \<longrightarrow>
                     DaysInYear (getFullYear h t + period) = 366))"
  shows "calculateExpiryDate h (DateObj (Date t')) (- period) unit = Some (Date t)"
proof -
  have inverse: "calculateExpiryDate h (DateObj (Date t')) (- period) unit =
           Some (if unit = ''days'' then setDate h (getDate h t' + - period) t'
                 else if unit = ''weeks'' then setDate h (getDate h t' + - period * 7) t'
                 else if unit = ''months'' then setMonth h (getMonth h t' + - period) t'
                 else setFullYear h (getFullYear h t' + - period) t')"
    by (rule calculateExpiryDate_Date) (simp_all add: falsyArg_def newDate_def)
  have forth: "(if unit = ''days'' then setDate h (getDate h t + period) t
                 else if unit = ''weeks'' then setDate h (getDate h t + period * 7) t
                 else if unit = ''months'' then setMonth h (getMonth h t + period) t
                 else setFullYear h (getFullYear h t + period) t) = Date t'"
    using expiry calculateExpiryDate_Date [OF start, of period unit] by simp
  from unit consider (days) "unit = ''days''" | (weeks) "unit = ''weeks''"
    | (years) "unit = ''years''"
        "getMonth h t = 1 \<and> getDate h t = 29 \<longrightarrow> DaysInYear (getFullYear h t + period) = 366"
    by blast
  then show ?thesis
  proof cases
    case days
    then have "TimeClip (t + period * msPerDay) = Date t'"
      using forth by (simp add: setDate_shift)
    then have "t' = t + period * msPerDay" using TimeClip_Date by metis
    then have "t' + - period * msPerDay = t" by (simp add: algebra_simps)
    moreover have "setDate h (getDate h t' + - period) t' = TimeClip (t' + - period * msPerDay)"
      by (rule setDate_shift)
    ultimately have "setDate h (getDate h t' + - period) t' = Date t"
      using range by (simp only: TimeClip_in_range)
    then show ?thesis using inverse days by simp
  next
    case weeks
    then have "TimeClip (t + period * 7 * msPerDay) = Date t'"
      using forth by (simp add: setDate_shift)
    then have "t' = t + period * 7 * msPerDay" using TimeClip_Date by metis
    then have "t' + - period * 7 * msPerDay = t" by (simp add: algebra_simps)
    moreover have "setDate h (getDate h t' + - period * 7) t' =
                     TimeClip (t' + - period * 7 * msPerDay)"
      by (rule setDate_shift)
    ultimately have "setDate h (getDate h t' + - period * 7) t' = Date t"
      using range by (simp only: TimeClip_in_range)
    then show ?thesis using inverse weeks by simp
  next
    case years
    define lt where "lt = LocalTime h t"
    define Y where "Y = YearFromTime lt"
    define M where "M = MonthFromTime lt"
    define D where "D = DateFromTime lt"
    have M_range: "0 \<le> M" "M \<le> 11" using MonthFromTime_range [of lt] by (simp_all add: M_def)
    have D_range: "1 \<le> D" "D \<le> DaysInMonth Y M"
      using DateFromTime_range [of lt] by (simp_all add: D_def Y_def M_def)
    have fits: "D \<le> DaysInMonth (Y + period) M"
    proof (cases "M = 1")
      case False
      then show ?thesis
        using D_range(2) DaysInMonth_other_year [OF M_range False, of Y "Y + period"] by simp
    next
      case True
      show ?thesis
      proof (cases "D = 29")
        case True
        then have "DaysInYear (Y + period) = 366"
          using years(2) \<open>M = 1\<close>
          by (simp add: getMonth_def getDate_def getFullYear_def lt_def Y_def M_def D_def)
        then show ?thesis using True \<open>M = 1\<close> by (simp add: DaysInMonth_February InLeapYear_def)
      next
        case False
        then have "D \<le> 28"
          using D_range(2) \<open>M = 1\<close> InLeapYear_cases [of Y] by (auto simp: DaysInMonth_February)
        then show ?thesis
          using \<open>M = 1\<close> InLeapYear_cases [of "Y + period"] by (auto simp: DaysInMonth_February)
      qed
    qed
    have "setFullYear h (getFullYear h t + period) t = Date t'"
      using forth years(1) by simp
    then have "UTC h (MakeDate (MakeDay (Y + period) M D) (TimeWithinDay lt)) = t'"
      by (intro TimeClip_Date)
         (simp add: setFullYear_def Let_def getFullYear_def lt_def [symmetric] Y_def M_def D_def)
    then have lt': "LocalTime h t' = MakeDate (MakeDay (Y + period) M D) (TimeWithinDay lt)"
      using LocalTime_UTC(1) by metis
    have day: "Day (LocalTime h t') = MakeDay (Y + period) M D"
      and time: "TimeWithinDay (LocalTime h t') = TimeWithinDay lt"
      using lt' TimeWithinDay_range [of lt] by (simp_all add: Day_MakeDate TimeWithinDay_MakeDate)
    note f = fields_of_MakeDay [OF M_range D_range(1) fits day]
    have "MakeDay Y M D = Day lt"
      using MakeDay_own_fields [of lt 0] by (simp add: Y_def M_def D_def)
    then have "setFullYear h (getFullYear h t' + - period) t' = TimeClip (UTC h lt)"
      by (simp add: setFullYear_def Let_def getFullYear_def f time MakeDate_Day)
    then have "setFullYear h (getFullYear h t' + - period) t' = Date t"
      using range by (simp add: lt_def LocalTime_UTC TimeClip_in_range)
    then show ?thesis using inverse years(1) by simp
  qed
qed

text \<open>
  From 15 January 2024: 31 days, 2 weeks and 1 year, forth and back; and from
  29 February 2024 four years, to the leap year 2028.
\<close>

theorem calculateExpiryDate_inverse_examples:
  "newDate hostMY (DateStr ''2024-01-15'') = Date 1705276800000 \<and>
   calculateExpiryDate hostMY (DateStr ''2024-01-15'') 31 ''days'' = Some (Date 1707955200000) \<and>
   calculateExpiryDate hostMY (DateObj (Date 1707955200000)) (- 31) ''days'' =
     Some (Date 1705276800000) \<and>
   calculateExpiryDate hostMY (DateStr ''2024-01-15'') 2 ''weeks'' = Some (Date 1706486400000) \<and>
   calculateExpiryDate hostMY (DateObj (Date 1706486400000)) (- 2) ''weeks'' =
     Some (Date 1705276800000) \<and>
   calculateExpiryDate hostMY (DateStr ''2024-01-15'') 1 ''years'' = Some (Date 1736899200000) \<and>
   calculateExpiryDate hostMY (DateObj (Date 1736899200000)) (- 1) ''years'' =
     Some (Date 1705276800000) \<and>
   newDate hostMY (DateStr ''2024-02-29'') = Date 1709164800000 \<and>
   calculateExpiryDate hostMY (DateStr ''2024-02-29'') 4 ''years'' = Some (Date 1835395200000) \<and>
   calculateExpiryDate hostMY (DateObj (Date 1835395200000)) (- 4) ''years'' =
     Some (Date 1709164800000)"
proof -
  have s1: "\<not> falsyArg (DateStr ''2024-01-15'')" by (simp add: falsyArg_def)
  have s2: "newDate hostMY (DateStr ''2024-01-15'') = Date 1705276800000" by code_simp
  have r: "\<bar>1705276800000 :: int\<bar> \<le> 8640000000000000" by simp
  have l1: "\<not> falsyArg (DateStr ''2024-02-29'')" by (simp add: falsyArg_def)
  have l2: "newDate hostMY (DateStr ''2024-02-29'') = Date 1709164800000" by code_simp
  have lr: "\<bar>1709164800000 :: int\<bar> \<le> 8640000000000000" by simp
  have ed: "calculateExpiryDate hostMY (DateStr ''2024-01-15'') 31 ''days'' =
              Some (Date 1707955200000)" by code_simp
  have ew: "calculateExpiryDate hostMY (DateStr ''2024-01-15'') 2 ''weeks'' =
              Some (Date 1706486400000)" by code_simp
  have ey: "calculateExpiryDate hostMY (DateStr ''2024-01-15'') 1 ''years'' =
              Some (Date 1736899200000)" by code_simp
  have el: "calculateExpiryDate hostMY (DateStr ''2024-02-29'') 4 ''years'' =
              Some (Date 1835395200000)" by code_simp
  have ud: "''days'' = ''days'' \<or> ''days'' = ''weeks'' \<or>
            (''days'' = ''years'' \<and>
             (getMonth hostMY 1705276800000 = 1 \<and> getDate hostMY 1705276800000 = 29 \<longrightarrow>
                DaysInYear (getFullYear hostMY 1705276800000 + 31) = 366))" by simp
  have uw: "''weeks'' = ''days'' \<or> ''weeks'' = ''weeks'' \<or>
            (''weeks'' = ''years'' \<and>
             (getMonth hostMY 1705276800000 = 1 \<and> getDate hostMY 1705276800000 = 29 \<longrightarrow>
                DaysInYear (getFullYear hostMY 1705276800000 + 2) = 366))" by simp
  have m: "getMonth hostMY 1705276800000 = 0" by code_simp
  have uy: "''years'' = ''days'' \<or> ''years'' = ''weeks'' \<or>
            (''years'' = ''years'' \<and>
             (getMonth hostMY 1705276800000 = 1 \<and> getDate hostMY 1705276800000 = 29 \<longrightarrow>
                DaysInYear (getFullYear hostMY 1705276800000 + 1) = 366))" by (simp add: m)
  have ly: "DaysInYear (getFullYear hostMY 1709164800000 + 4) = 366" by code_simp
  have ul: "''years'' = ''days'' \<or> ''years'' = ''weeks'' \<or>
            (''years'' = ''years'' \<and>
             (getMonth hostMY 1709164800000 = 1 \<and> getDate hostMY 1709164800000 = 29 \<longrightarrow>
                DaysInYear (getFullYear hostMY 1709164800000 + 4) = 366))" by (simp add: ly)
  show ?thesis
    using calculateExpiryDate_inverse [OF s1 s2 r ed ud]
          calculateExpiryDate_inverse [OF s1 s2 r ew uw]
          calculateExpiryDate_inverse [OF s1 s2 r ey uy]
          calculateExpiryDate_inverse [OF l1 l2 lr el ul]
          s2 l2 ed ew ey el
    by simp
qed

end
